theory Spec2Isabelle
  imports Complex_Main "HOL-Library.Char_ord" "HOL-Library.List_Lexorder"
begin

section \<open>Conventions of the embedding\<close>

text \<open>
  The distillation core is Python. Its \<open>float\<close> values are modelled as \<^typ>\<open>real\<close>
  (exact arithmetic: rounding is not modelled), its unbounded \<open>int\<close> values as
  \<^typ>\<open>int\<close> or \<^typ>\<open>nat\<close>, its exceptions as values of \<open>py_error\<close> on the left of a
  sum, and every reading of the clock (\<open>datetime.now()\<close>, \<open>time.time()\<close>) as an
  explicit argument. A text is a list of characters, each standing for the code point
  of its number, so texts are those of code points below 256.
\<close>

datatype py_error = ZeroDivisionError | IndexError | ValueError | ProviderError

section \<open>Budget tracker (\<open>cost_optimizer.py\<close>)\<close>

record CostBudget =
  total_budget :: real
  daily_budget :: "real option"
  hourly_budget :: "real option"
  cost_per_item_limit :: "real option"
  quality_cost_ratio_min :: real

text \<open>
  A timestamp, as far as \<open>strftime('%Y-%m-%d')\<close> and \<open>strftime('%Y-%m-%d %H')\<close> read it.
  Both formats are injective on the fields they print, so the two dictionary keys are
  modelled as the tuples of those fields.
\<close>

record datetime =
  dt_year :: nat
  dt_month :: nat
  dt_day :: nat
  dt_hour :: nat

type_synonym date_key = "nat \<times> nat \<times> nat"
type_synonym hour_key = "nat \<times> nat \<times> nat \<times> nat"

definition strftime_date :: "datetime \<Rightarrow> date_key" where
  "strftime_date ts = (dt_year ts, dt_month ts, dt_day ts)"

definition strftime_hour :: "datetime \<Rightarrow> hour_key" where
  "strftime_hour ts = (dt_year ts, dt_month ts, dt_day ts, dt_hour ts)"

record budget_issue =
  issue_type :: string
  issue_current :: real
  issue_limit :: real
  issue_additional :: real

record BudgetTracker =
  daily_spending :: "date_key \<rightharpoonup> real"
  hourly_spending :: "hour_key \<rightharpoonup> real"
  total_spending :: real
  budget_alerts :: "budget_issue list"

definition BudgetTracker_init :: BudgetTracker where
  "BudgetTracker_init =
     \<lparr>daily_spending = Map.empty, hourly_spending = Map.empty,
      total_spending = 0, budget_alerts = []\<rparr>"

text \<open>
  \<open>defaultdict(float)\<close>: reading a missing key with \<open>d[k]\<close> stores \<open>0.0\<close> under it
  and returns it. The read therefore returns the dictionary as well.
\<close>

definition dd_getitem :: "('k \<rightharpoonup> real) \<Rightarrow> 'k \<Rightarrow> real \<times> ('k \<rightharpoonup> real)" where
  "dd_getitem d k = (case d k of None \<Rightarrow> (0, d(k \<mapsto> 0)) | Some v \<Rightarrow> (v, d))"

text \<open>\<open>d[k] += amount\<close> on a \<open>defaultdict(float)\<close>.\<close>

definition dd_add :: "('k \<rightharpoonup> real) \<Rightarrow> 'k \<Rightarrow> real \<Rightarrow> ('k \<rightharpoonup> real)" where
  "dd_add d k amount = (let (v, d') = dd_getitem d k in d'(k \<mapsto> v + amount))"

text \<open>The amount a dictionary records for a key, a missing key counting as nothing spent.\<close>

definition spent :: "('k \<rightharpoonup> real) \<Rightarrow> 'k \<Rightarrow> real" where
  "spent d k = (case d k of None \<Rightarrow> 0 | Some v \<Rightarrow> v)"

text \<open>
  \<open>track_spending(amount, timestamp=None)\<close>; \<open>now\<close> is the clock, read only when no
  timestamp is passed.
\<close>

definition track_spending :: "BudgetTracker \<Rightarrow> datetime \<Rightarrow> real \<Rightarrow> datetime option \<Rightarrow> BudgetTracker" where
  "track_spending tr now amount timestamp =
     (let ts = (case timestamp of None \<Rightarrow> now | Some t \<Rightarrow> t)
      in tr\<lparr>total_spending := total_spending tr + amount,
             daily_spending := dd_add (daily_spending tr) (strftime_date ts) amount,
             hourly_spending := dd_add (hourly_spending tr) (strftime_hour ts) amount\<rparr>)"

record budget_check =
  within_budget :: bool
  issues :: "budget_issue list"
  remaining_total :: real
  utilization :: real

text \<open>Python truthiness of an \<open>Optional[float]\<close>: \<open>None\<close> and \<open>0.0\<close> are false.\<close>

definition truthy :: "real option \<Rightarrow> bool" where
  "truthy b = (case b of None \<Rightarrow> False | Some v \<Rightarrow> v \<noteq> 0)"

text \<open>
  \<open>check_budget_constraints(budget, additional_cost)\<close>. The tracker is returned beside
  the result, since the reads of the two dictionaries may store a key; it is returned
  also when the final division raises, the reads having happened before.
\<close>

definition check_budget_constraints ::
  "BudgetTracker \<Rightarrow> datetime \<Rightarrow> CostBudget \<Rightarrow> real \<Rightarrow> (py_error + budget_check) \<times> BudgetTracker" where
  "check_budget_constraints tr now budget additional_cost =
     (let issues0 =
            (if total_spending tr + additional_cost > total_budget budget
             then [\<lparr>issue_type = ''total_budget_exceeded'', issue_current = total_spending tr,
                     issue_limit = total_budget budget, issue_additional = additional_cost\<rparr>]
             else []);
          (issues1, daily') =
            (if truthy (daily_budget budget)
             then (let (daily_spent, d') = dd_getitem (daily_spending tr) (strftime_date now)
                   in (if daily_spent + additional_cost > the (daily_budget budget)
                       then issues0 @ [\<lparr>issue_type = ''daily_budget_exceeded'',
                              issue_current = daily_spent,
                              issue_limit = the (daily_budget budget),
                              issue_additional = additional_cost\<rparr>]
                       else issues0, d'))
             else (issues0, daily_spending tr));
          (issues2, hourly') =
            (if truthy (hourly_budget budget)
             then (let (hourly_spent, h') = dd_getitem (hourly_spending tr) (strftime_hour now)
                   in (if hourly_spent + additional_cost > the (hourly_budget budget)
                       then issues1 @ [\<lparr>issue_type = ''hourly_budget_exceeded'',
                              issue_current = hourly_spent,
                              issue_limit = the (hourly_budget budget),
                              issue_additional = additional_cost\<rparr>]
                       else issues1, h'))
             else (issues1, hourly_spending tr));
          tr' = tr\<lparr>daily_spending := daily', hourly_spending := hourly'\<rparr>
      in (if total_budget budget = 0 then Inl ZeroDivisionError
          else Inr \<lparr>within_budget = (length issues2 = 0), issues = issues2,
                    remaining_total = total_budget budget - total_spending tr,
                    utilization = total_spending tr / total_budget budget\<rparr>,
          tr'))"

text \<open>
  The claim's reading of "exceeds a configured ceiling": the total ceiling always is
  one, a daily or hourly ceiling is one when it is not \<open>None\<close>.
\<close>

definition exceeds_configured_ceiling ::
  "BudgetTracker \<Rightarrow> datetime \<Rightarrow> CostBudget \<Rightarrow> real \<Rightarrow> bool" where
  "exceeds_configured_ceiling tr now budget additional_cost =
     (total_spending tr + additional_cost > total_budget budget
      \<or> (case daily_budget budget of None \<Rightarrow> False
          | Some d \<Rightarrow> spent (daily_spending tr) (strftime_date now) + additional_cost > d)
      \<or> (case hourly_budget budget of None \<Rightarrow> False
          | Some h \<Rightarrow> spent (hourly_spending tr) (strftime_hour now) + additional_cost > h))"

text \<open>The same, with a ceiling of \<open>0\<close> counted as not configured, as the code's guards do.\<close>

definition exceeds_nonzero_ceiling ::
  "BudgetTracker \<Rightarrow> datetime \<Rightarrow> CostBudget \<Rightarrow> real \<Rightarrow> bool" where
  "exceeds_nonzero_ceiling tr now budget additional_cost =
     (total_spending tr + additional_cost > total_budget budget
      \<or> (case daily_budget budget of None \<Rightarrow> False
          | Some d \<Rightarrow> d \<noteq> 0 \<and> spent (daily_spending tr) (strftime_date now) + additional_cost > d)
      \<or> (case hourly_budget budget of None \<Rightarrow> False
          | Some h \<Rightarrow> h \<noteq> 0 \<and> spent (hourly_spending tr) (strftime_hour now) + additional_cost > h))"

subsection \<open>Concrete budgets and trackers used in the examples\<close>

definition example_now :: datetime where
  "example_now = \<lparr>dt_year = 2024, dt_month = 1, dt_day = 15, dt_hour = 10\<rparr>"

definition budget_zero_daily :: CostBudget where
  "budget_zero_daily =
     \<lparr>total_budget = 100, daily_budget = Some 0, hourly_budget = None,
      cost_per_item_limit = None, quality_cost_ratio_min = 1\<rparr>"

definition budget_daily5 :: CostBudget where
  "budget_daily5 =
     \<lparr>total_budget = 10, daily_budget = Some 5, hourly_budget = None,
      cost_per_item_limit = Some (1 / 10), quality_cost_ratio_min = 1\<rparr>"

definition budget_zero_total :: CostBudget where
  "budget_zero_total =
     \<lparr>total_budget = 0, daily_budget = None, hourly_budget = None,
      cost_per_item_limit = None, quality_cost_ratio_min = 1\<rparr>"

section \<open>Rate limiter (\<open>providers.py\<close>)\<close>

record RateLimiter =
  requests_per_minute :: int
  request_times :: "real list"

definition RateLimiter_init :: "int \<Rightarrow> RateLimiter" where
  "RateLimiter_init n = \<lparr>requests_per_minute = n, request_times = []\<rparr>"

text \<open>\<open>[t for t in self.request_times if t > cutoff]\<close>\<close>

definition newer_than :: "real \<Rightarrow> real list \<Rightarrow> real list" where
  "newer_than cutoff ts = filter (\<lambda>t. t > cutoff) ts"

text \<open>
  \<open>wait_if_needed()\<close> for a single caller. \<open>now\<close> is the first reading of \<open>time.time()\<close>,
  \<open>woke\<close> the reading after \<open>asyncio.sleep\<close>, which is looked at only when the call
  sleeps. The result is the duration passed to \<open>asyncio.sleep\<close> (\<open>None\<close> when the call
  does not sleep) and the limiter afterwards; \<open>self.request_times[0]\<close> on an empty list
  raises \<open>IndexError\<close>.
\<close>

definition wait_if_needed ::
  "RateLimiter \<Rightarrow> real \<Rightarrow> real \<Rightarrow> py_error + (real option \<times> RateLimiter)" where
  "wait_if_needed rl now woke =
     (let times1 = newer_than (now - 60) (request_times rl)
      in if int (length times1) \<ge> requests_per_minute rl
         then (case times1 of
                 [] \<Rightarrow> Inl IndexError
               | t0 # _ \<Rightarrow>
                   (let wait_time = 60 - (now - t0)
                    in if wait_time > 0
                       then Inr (Some wait_time,
                              rl\<lparr>request_times := newer_than (woke - 60) times1 @ [woke]\<rparr>)
                       else Inr (None, rl\<lparr>request_times := times1 @ [now]\<rparr>)))
         else Inr (None, rl\<lparr>request_times := times1 @ [now]\<rparr>))"

text \<open>
  A single caller issuing one call after the other; each call comes with its two clock
  readings. The result lists, call by call, whether and how long the call slept.
\<close>

fun run_calls ::
  "RateLimiter \<Rightarrow> (real \<times> real) list \<Rightarrow> py_error + (real option list \<times> RateLimiter)" where
  "run_calls rl [] = Inr ([], rl)"
| "run_calls rl ((now, woke) # cs) =
     (case wait_if_needed rl now woke of
        Inl e \<Rightarrow> Inl e
      | Inr (s, rl') \<Rightarrow>
          (case run_calls rl' cs of
             Inl e \<Rightarrow> Inl e
           | Inr (ss, rl'') \<Rightarrow> Inr (s # ss, rl'')))"

text \<open>The number of calls of a run that slept.\<close>

definition suspensions :: "real option list \<Rightarrow> nat" where
  "suspensions ss = length (filter (\<lambda>s. s \<noteq> None) ss)"

section \<open>Strings of the prompts\<close>

definition nl :: string where
  "nl = [CHR 0x0A]"

definition ind8 :: string where
  "ind8 = replicate 8 (CHR '' '')"

text \<open>\<open>sep.join(xs)\<close>\<close>

fun py_join :: "string \<Rightarrow> string list \<Rightarrow> string" where
  "py_join sep [] = []"
| "py_join sep [x] = x"
| "py_join sep (x # y # ys) = x @ sep @ py_join sep (y # ys)"

text \<open>\<open>str(n)\<close> for a natural number.\<close>

fun str_nat :: "nat \<Rightarrow> string" where
  "str_nat n =
     (if n < 10 then [char_of (48 + n)]
      else str_nat (n div 10) @ [char_of (48 + n mod 10)])"

section \<open>Providers (\<open>core.py\<close>, \<open>LLMProvider\<close>)\<close>

text \<open>
  A provider is remote: what \<open>generate\<close> returns is not determined by the program. It is
  modelled by its \<open>outcomes\<close>, which give for the \<open>n\<close>-th call made on the provider
  either the exception it raises or the dictionary it returns, and by the log of the
  calls made so far. Of the dictionary only the keys the core reads are kept, each
  optional as \<open>response.get(key, default)\<close> allows.
\<close>

record llm_call =
  call_prompt :: string
  call_temperature :: real
  call_max_tokens :: nat

record llm_response =
  resp_content :: "string option"
  resp_confidence :: "real option"
  resp_tokens_used :: "int option"

record LLMProvider =
  outcomes :: "nat \<Rightarrow> llm_call \<Rightarrow> py_error + llm_response"
  calls :: "llm_call list"

definition generate ::
  "LLMProvider \<Rightarrow> string \<Rightarrow> real \<Rightarrow> nat \<Rightarrow> (py_error + llm_response) \<times> LLMProvider" where
  "generate p prompt temperature max_tokens =
     (let c = \<lparr>call_prompt = prompt, call_temperature = temperature,
                call_max_tokens = max_tokens\<rparr>
      in (outcomes p (length (calls p)) c, p\<lparr>calls := calls p @ [c]\<rparr>))"

text \<open>\<open>d.get(key, default)\<close>\<close>

definition get_default :: "'a option \<Rightarrow> 'a \<Rightarrow> 'a" where
  "get_default v d = (case v of None \<Rightarrow> d | Some x \<Rightarrow> x)"

section \<open>Teacher (\<open>core.py\<close>, \<open>TeacherModel\<close>)\<close>

datatype DistillationStrategy = RESPONSE_BASED | FEATURE_BASED | HYBRID

record GenerationRequest =
  req_keywords :: "string list"
  data_type :: string
  quantity :: int
  quality_threshold :: real
  strategy :: DistillationStrategy

record example_context =
  ctx_keywords :: "string list option"
  ctx_iteration :: "nat option"

record TeacherExample =
  ex_input :: string
  ex_output :: string
  ex_confidence :: real
  ex_tokens_used :: int
  ex_model :: string
  ex_timestamp :: datetime
  ex_context :: example_context

record TeacherModel =
  teacher_provider :: LLMProvider
  teacher_model_name :: string
  examples_cache :: "TeacherExample list"

definition create_seed_prompt :: "GenerationRequest \<Rightarrow> nat \<Rightarrow> string" where
  "create_seed_prompt request iteration =
     nl @ ind8 @ ''Generate high-quality '' @ data_type request
       @ '' data based on keywords: '' @ py_join '', '' (req_keywords request) @ nl
     @ ind8 @ nl
     @ ind8 @ ''Requirements:'' @ nl
     @ ind8 @ ''- High diversity and creativity'' @ nl
     @ ind8 @ ''- Professional quality'' @ nl
     @ ind8 @ ''- Variation #'' @ str_nat (iteration + 1) @ nl
     @ ind8 @ ''- Clear structure and formatting'' @ nl
     @ ind8 @ nl
     @ ind8 @ ''Generate:'' @ nl
     @ ind8"

text \<open>\<open>seed_quantity = min(request.quantity // 10, 50)\<close>\<close>

definition seed_quantity :: "GenerationRequest \<Rightarrow> int" where
  "seed_quantity request = min (quantity request div 10) 50"

text \<open>
  The body of the loop \<open>for i in range(seed_quantity)\<close>, over the indices still to do.
  \<open>clock i\<close> is the reading of \<open>datetime.now()\<close> in iteration \<open>i\<close>. A call that raises is
  skipped (\<open>continue\<close>).
\<close>

fun seed_loop ::
  "GenerationRequest \<Rightarrow> (nat \<Rightarrow> datetime) \<Rightarrow> nat list \<Rightarrow> TeacherModel \<Rightarrow> TeacherExample list
     \<Rightarrow> TeacherExample list \<times> TeacherModel" where
  "seed_loop request clock [] tm examples = (examples, tm)"
| "seed_loop request clock (i # is) tm examples =
     (let prompt = create_seed_prompt request i;
          (r, p') = generate (teacher_provider tm) prompt (8 / 10) 1000;
          tm' = tm\<lparr>teacher_provider := p'\<rparr>
      in case r of
           Inl e \<Rightarrow> seed_loop request clock is tm' examples
         | Inr response \<Rightarrow>
             (let example =
                    \<lparr>ex_input = prompt,
                     ex_output = get_default (resp_content response) [],
                     ex_confidence = get_default (resp_confidence response) 0,
                     ex_tokens_used = get_default (resp_tokens_used response) 0,
                     ex_model = teacher_model_name tm,
                     ex_timestamp = clock i,
                     ex_context = \<lparr>ctx_keywords = Some (req_keywords request),
                                    ctx_iteration = Some i\<rparr>\<rparr>
              in seed_loop request clock is
                   (tm'\<lparr>examples_cache := examples_cache tm' @ [example]\<rparr>)
                   (examples @ [example])))"

definition generate_seed_data ::
  "TeacherModel \<Rightarrow> (nat \<Rightarrow> datetime) \<Rightarrow> GenerationRequest \<Rightarrow> TeacherExample list \<times> TeacherModel" where
  "generate_seed_data tm clock request =
     seed_loop request clock [0 ..< nat (seed_quantity request)] tm []"

section \<open>Student (\<open>core.py\<close>, \<open>StudentModel\<close>)\<close>

text \<open>
  \<open>learned_patterns\<close> is a dictionary from a category to a dictionary of strings; only
  \<open>learn_from_teacher\<close> writes it. Dictionaries are association lists in insertion order.
\<close>

type_synonym pattern_map = "(string \<times> (string \<times> string) list) list"

fun dict_set :: "('k \<times> 'v) list \<Rightarrow> 'k \<Rightarrow> 'v \<Rightarrow> ('k \<times> 'v) list" where
  "dict_set [] k v = [(k, v)]"
| "dict_set ((k', v') # d) k v =
     (if k' = k then (k, v) # d else (k', v') # dict_set d k v)"

text \<open>\<open>d.update(e)\<close>\<close>

definition dict_update :: "('k \<times> 'v) list \<Rightarrow> ('k \<times> 'v) list \<Rightarrow> ('k \<times> 'v) list" where
  "dict_update d e = foldl (\<lambda>acc (k, v). dict_set acc k v) d e"

record StudentModel =
  student_provider :: LLMProvider
  student_model_name :: string
  learned_patterns :: pattern_map
  performance_metrics :: "(string \<times> real) list"

definition extract_structures :: "TeacherExample list \<Rightarrow> (string \<times> string) list" where
  "extract_structures examples = [(''placeholder'', ''structure_analysis'')]"

definition extract_styles :: "TeacherExample list \<Rightarrow> (string \<times> string) list" where
  "extract_styles examples = [(''placeholder'', ''style_analysis'')]"

definition extract_quality_indicators :: "TeacherExample list \<Rightarrow> (string \<times> string) list" where
  "extract_quality_indicators examples = [(''placeholder'', ''quality_analysis'')]"

definition extract_keyword_mappings :: "TeacherExample list \<Rightarrow> (string \<times> string) list" where
  "extract_keyword_mappings examples = [(''placeholder'', ''keyword_analysis'')]"

definition calculate_learning_confidence :: "StudentModel \<Rightarrow> real" where
  "calculate_learning_confidence sm = 75 / 100"

record learning_result =
  patterns_learned :: nat
  examples_processed :: nat
  learning_confidence :: real

definition learn_from_teacher ::
  "StudentModel \<Rightarrow> TeacherExample list \<Rightarrow> learning_result \<times> StudentModel" where
  "learn_from_teacher sm teacher_examples =
     (let patterns =
            [(''common_structures'', extract_structures teacher_examples),
             (''response_styles'', extract_styles teacher_examples),
             (''quality_indicators'', extract_quality_indicators teacher_examples),
             (''keyword_mappings'', extract_keyword_mappings teacher_examples)];
          sm' = sm\<lparr>learned_patterns := dict_update (learned_patterns sm) patterns\<rparr>
      in (\<lparr>patterns_learned = length patterns,
           examples_processed = length teacher_examples,
           learning_confidence = calculate_learning_confidence sm'\<rparr>, sm'))"

text \<open>
  \<open>json.dumps(patterns, indent=2)\<close> on such a dictionary. Strings are written between
  double quotes as they are: the strings \<open>learn_from_teacher\<close> stores need no escape.
\<close>

definition json_str :: "string \<Rightarrow> string" where
  "json_str s = [CHR 0x22] @ s @ [CHR 0x22]"

definition json_dumps_inner :: "(string \<times> string) list \<Rightarrow> string" where
  "json_dumps_inner d =
     (if d = [] then ''{}''
      else ''{'' @ nl
        @ py_join ('','' @ nl)
            (map (\<lambda>(k, v). replicate 4 (CHR '' '') @ json_str k @ '': '' @ json_str v) d)
        @ nl @ replicate 2 (CHR '' '') @ ''}'')"

definition json_dumps :: "pattern_map \<Rightarrow> string" where
  "json_dumps d =
     (if d = [] then ''{}''
      else ''{'' @ nl
        @ py_join ('','' @ nl)
            (map (\<lambda>(k, v). replicate 2 (CHR '' '') @ json_str k @ '': '' @ json_dumps_inner v) d)
        @ nl @ ''}'')"

definition create_student_prompt :: "StudentModel \<Rightarrow> GenerationRequest \<Rightarrow> nat \<Rightarrow> string" where
  "create_student_prompt sm request iteration =
     (let patterns = learned_patterns sm
      in nl @ ind8 @ ''Based on learned patterns, generate '' @ data_type request
           @ '' data for: '' @ py_join '', '' (req_keywords request) @ nl
         @ ind8 @ nl
         @ ind8 @ ''Pattern guidance: ''
           @ (if patterns \<noteq> [] then json_dumps patterns else ''Using basic patterns'') @ nl
         @ ind8 @ ''Variation: #'' @ str_nat (iteration + 1) @ nl
         @ ind8 @ nl
         @ ind8 @ ''Generate:'' @ nl
         @ ind8)"

definition estimate_quality :: "llm_response \<Rightarrow> real" where
  "estimate_quality response = get_default (resp_confidence response) (5 / 10)"

record student_item =
  item_content :: string
  item_quality_estimate :: real
  item_model :: string

text \<open>
  One batch: the calls of the batch are created in the order of their indices and
  awaited together (\<open>asyncio.gather(..., return_exceptions=True)\<close>), which returns one
  outcome per call in that order. The outcomes of the provider are taken in the order
  in which the calls are created.
\<close>

fun gather_generate ::
  "LLMProvider \<Rightarrow> string list \<Rightarrow> (py_error + llm_response) list \<times> LLMProvider" where
  "gather_generate p [] = ([], p)"
| "gather_generate p (prompt # prompts) =
     (let (r, p') = generate p prompt (7 / 10) 500;
          (rs, p'') = gather_generate p' prompts
      in (r # rs, p''))"

text \<open>The items of the outcomes of a batch; a call that raised is dropped.\<close>

fun batch_items :: "string \<Rightarrow> (py_error + llm_response) list \<Rightarrow> student_item list" where
  "batch_items name [] = []"
| "batch_items name (Inl e # rs) = batch_items name rs"
| "batch_items name (Inr response # rs) =
     \<lparr>item_content = get_default (resp_content response) [],
      item_quality_estimate = estimate_quality response,
      item_model = name\<rparr> # batch_items name rs"

text \<open>\<open>for batch_start in range(0, request.quantity, batch_size)\<close>, with \<open>batch_size = 20\<close>.\<close>

function bulk_loop ::
  "GenerationRequest \<Rightarrow> nat \<Rightarrow> StudentModel \<Rightarrow> student_item list
     \<Rightarrow> student_item list \<times> StudentModel" where
  "bulk_loop request batch_start sm results =
     (if int batch_start < quantity request
      then (let batch_end = nat (min (int batch_start + 20) (quantity request));
                prompts = map (create_student_prompt sm request) [batch_start ..< batch_end];
                (batch_responses, p') = gather_generate (student_provider sm) prompts
            in bulk_loop request (batch_start + 20) (sm\<lparr>student_provider := p'\<rparr>)
                 (results @ batch_items (student_model_name sm) batch_responses))
      else (results, sm))"
  by pat_completeness auto
termination
  by (relation "measure (\<lambda>(request, batch_start, sm, results).
        nat (quantity request - int batch_start))") auto

definition generate_bulk_data ::
  "StudentModel \<Rightarrow> GenerationRequest \<Rightarrow> student_item list \<times> StudentModel" where
  "generate_bulk_data sm request = bulk_loop request 0 sm []"

section \<open>Quality validator (\<open>core.py\<close>, \<open>QualityValidator\<close>)\<close>

text \<open>
  \<open>c.isspace()\<close>: the white space \<open>strip\<close> and \<open>split\<close> remove, among it the next-line
  character (133) and the no-break space (160).
\<close>

definition is_space :: "char \<Rightarrow> bool" where
  "is_space c = (of_char c \<in> {9, 10, 11, 12, 13, 28, 29, 30, 31, 32, 133, 160 :: nat})"

text \<open>\<open>s.strip()\<close>\<close>

definition strip :: "string \<Rightarrow> string" where
  "strip s = rev (dropWhile is_space (rev (dropWhile is_space s)))"

definition is_ascii_digit :: "char \<Rightarrow> bool" where
  "is_ascii_digit c = (48 \<le> (of_char c :: nat) \<and> (of_char c :: nat) \<le> 57)"

text \<open>
  \<open>c.isdigit()\<close>: the ten digits and the superscript digits two, three and one (178,
  179, 185), which \<open>float\<close> does not read.
\<close>

definition is_digit :: "char \<Rightarrow> bool" where
  "is_digit c = (is_ascii_digit c \<or> of_char c \<in> {178, 179, 185 :: nat})"

text \<open>\<open>s.isdigit()\<close>\<close>

definition isdigit :: "string \<Rightarrow> bool" where
  "isdigit s = (s \<noteq> [] \<and> list_all is_digit s)"

definition digits_value :: "string \<Rightarrow> nat" where
  "digits_value s = foldl (\<lambda>a c. 10 * a + (of_char c - 48)) 0 s"

text \<open>
  \<open>float(s)\<close> for a text of digits and dots with at least one digit, the only texts the
  validator passes to it: the decimal value when there is at most one dot and every
  digit is one of the ten, \<open>ValueError\<close> otherwise.
\<close>

definition py_float :: "string \<Rightarrow> py_error + real" where
  "py_float s =
     (if length (filter (\<lambda>c. c = CHR ''.'') s) > 1
         \<or> list_ex (\<lambda>c. c \<noteq> CHR ''.'' \<and> \<not> is_ascii_digit c) s
      then Inl ValueError
      else (let whole = takeWhile (\<lambda>c. c \<noteq> CHR ''.'') s;
                frac = drop 1 (dropWhile (\<lambda>c. c \<noteq> CHR ''.'') s)
            in Inr (real (digits_value whole) + real (digits_value frac) / 10 ^ length frac)))"

record validation =
  v_quality_score :: real
  validation_content :: "string option"
  validation_error :: "py_error option"

definition validation_prompt :: "string \<Rightarrow> string" where
  "validation_prompt content =
     nl @ ind8 @ ''Evaluate the quality of this generated content on a scale of 0.0 to 1.0:'' @ nl
     @ ind8 @ nl
     @ ind8 @ ''Content: '' @ content @ nl
     @ ind8 @ nl
     @ ind8 @ ''Score based on:'' @ nl
     @ ind8 @ ''- Relevance and accuracy'' @ nl
     @ ind8 @ ''- Language quality'' @ nl
     @ ind8 @ ''- Completeness'' @ nl
     @ ind8 @ ''- Originality'' @ nl
     @ ind8 @ nl
     @ ind8 @ ''Return only the numeric score:'' @ nl
     @ ind8"

text \<open>
  \<open>_validate_single(item)\<close>: every exception of the \<open>try\<close> block, the provider's or
  \<open>float\<close>'s, ends in the default score \<open>0.5\<close>.
\<close>

definition validate_single :: "LLMProvider \<Rightarrow> student_item \<Rightarrow> validation \<times> LLMProvider" where
  "validate_single p item =
     (let content = item_content item;
          (r, p') = generate p (validation_prompt content) (1 / 10) 10
      in (case r of
            Inl e \<Rightarrow>
              \<lparr>v_quality_score = 5 / 10, validation_content = None, validation_error = Some e\<rparr>
          | Inr response \<Rightarrow>
              (let score_text = strip (get_default (resp_content response) ''0.5'')
               in case (if isdigit (filter (\<lambda>c. c \<noteq> CHR ''.'') score_text)
                        then py_float score_text else Inr (5 / 10)) of
                    Inl e \<Rightarrow>
                      \<lparr>v_quality_score = 5 / 10, validation_content = None,
                       validation_error = Some e\<rparr>
                  | Inr quality_score \<Rightarrow>
                      \<lparr>v_quality_score = max 0 (min 1 quality_score),
                       validation_content =
                         Some (if length content > 100 then take 100 content @ ''...''
                               else content),
                       validation_error = None\<rparr>),
          p'))"

fun gather_validate ::
  "LLMProvider \<Rightarrow> student_item list \<Rightarrow> validation list \<times> LLMProvider" where
  "gather_validate p [] = ([], p)"
| "gather_validate p (item # items) =
     (let (v, p') = validate_single p item;
          (vs, p'') = gather_validate p' items
      in (v # vs, p''))"

text \<open>\<open>int(x)\<close> of a float: truncation towards zero.\<close>

definition py_int :: "real \<Rightarrow> int" where
  "py_int x = (if x \<ge> 0 then \<lfloor>x\<rfloor> else \<lceil>x\<rceil>)"

text \<open>\<open>list(range(0, n, step))\<close> for \<open>step > 0\<close>.\<close>

definition range_step :: "nat \<Rightarrow> nat \<Rightarrow> nat list" where
  "range_step n step = map (\<lambda>k. k * step) [0 ..< (n + step - 1) div step]"

record validation_result =
  average_quality :: real
  sample_size :: nat
  validations :: "validation list"
  meets_threshold :: bool

text \<open>
  \<open>validate_batch(data, sample_ratio)\<close>, on the provider of the validator's teacher;
  \<open>size\<close> and \<open>vs\<close> are the source's \<open>sample_size\<close> and \<open>validations\<close>. The arithmetic
  is that of the reals: at some inputs the code's binary floating point gives another
  sample size, mean or flag (100 items at the ratio 0.57: 56 samples, not 57), so only
  what rounding cannot change is proved of this definition.
  \<open>range\<close> with a step of zero raises \<open>ValueError\<close>; a division by an empty list's length
  would raise \<open>ZeroDivisionError\<close>.
\<close>

definition validate_batch ::
  "LLMProvider \<Rightarrow> student_item list \<Rightarrow> real \<Rightarrow> (py_error + validation_result) \<times> LLMProvider" where
  "validate_batch p data sample_ratio =
     (let size = max 1 (py_int (real (length data) * sample_ratio));
          step = int (length data) div size
      in if step = 0 then (Inl ValueError, p)
         else (let sample_indices = take (nat size) (range_step (length data) (nat step));
                   (vs, p') = gather_validate p (map (\<lambda>i. data ! i) sample_indices)
               in if vs = [] then (Inl ZeroDivisionError, p')
                  else (let avg_quality = sum_list (map v_quality_score vs) / real (length vs)
                        in (Inr \<lparr>average_quality = avg_quality,
                                 sample_size = length vs,
                                 validations = vs,
                                 meets_threshold = (avg_quality \<ge> 8 / 10)\<rparr>, p'))))"

section \<open>Orchestrator (\<open>core.py\<close>, \<open>KnowledgeDistillationOrchestrator\<close>)\<close>

text \<open>
  The validator holds a reference to the orchestrator's teacher, so its calls go to the
  teacher's provider; the teacher and the student are taken to have providers of their
  own. \<open>run_env\<close> collects what a run reads from outside: the identifier drawn by
  \<open>uuid.uuid4()\<close>, the clock of the seed loop, and the seconds between the two readings of
  the clock in \<open>generate_dataset\<close>.
\<close>

record KnowledgeDistillationOrchestrator =
  teacher :: TeacherModel
  student :: StudentModel

record run_env =
  env_uuid :: string
  env_clock :: "nat \<Rightarrow> datetime"
  env_elapsed :: real

record data_item =
  content :: string
  source :: string
  quality :: real

record response_metadata =
  md_teacher_examples :: nat
  md_student_generated :: nat
  md_learning_confidence :: real
  md_validation_sample_size :: nat
  md_meets_quality_threshold :: bool

record GenerationResponse =
  response_id :: string
  data :: "data_item list"
  quality_score :: real
  cost :: real
  model_used :: string
  generation_time :: real
  metadata :: response_metadata

definition calculate_total_cost :: "TeacherExample list \<Rightarrow> student_item list \<Rightarrow> real" where
  "calculate_total_cost teacher_examples student_data =
     (let teacher_cost = sum_list (map (\<lambda>ex. real_of_int (ex_tokens_used ex) * (1 / 100))
                                      teacher_examples);
          student_cost = real (length student_data) * (1 / 1000)
      in teacher_cost + student_cost)"

definition generate_dataset ::
  "KnowledgeDistillationOrchestrator \<Rightarrow> run_env \<Rightarrow> GenerationRequest
     \<Rightarrow> (py_error + GenerationResponse) \<times> KnowledgeDistillationOrchestrator" where
  "generate_dataset orch env request =
     (let (teacher_examples, tm1) = generate_seed_data (teacher orch) (env_clock env) request;
          (learning, sm1) = learn_from_teacher (student orch) teacher_examples;
          (student_data, sm2) = generate_bulk_data sm1 request;
          (validation_r, p') = validate_batch (teacher_provider tm1) student_data (1 / 10);
          orch' = \<lparr>teacher = tm1\<lparr>teacher_provider := p'\<rparr>, student = sm2\<rparr>
      in case validation_r of
           Inl e \<Rightarrow> (Inl e, orch')
         | Inr validation_result \<Rightarrow>
             (Inr \<lparr>response_id = env_uuid env,
                   data = map (\<lambda>ex. \<lparr>content = ex_output ex, source = ''teacher'',
                                      quality = ex_confidence ex\<rparr>) teacher_examples
                        @ map (\<lambda>item. \<lparr>content = item_content item, source = ''student'',
                                        quality = item_quality_estimate item\<rparr>) student_data,
                   quality_score = average_quality validation_result,
                   cost = calculate_total_cost teacher_examples student_data,
                   model_used = teacher_model_name tm1 @ '' + '' @ student_model_name sm2,
                   generation_time = env_elapsed env,
                   metadata =
                     \<lparr>md_teacher_examples = length teacher_examples,
                      md_student_generated = length student_data,
                      md_learning_confidence = learning_confidence learning,
                      md_validation_sample_size = sample_size validation_result,
                      md_meets_quality_threshold = meets_threshold validation_result\<rparr>\<rparr>,
              orch'))"

section \<open>Vocabulary of the claims about the pipeline\<close>

text \<open>The call the seed loop makes in iteration \<open>i\<close>.\<close>

definition seed_call :: "GenerationRequest \<Rightarrow> nat \<Rightarrow> llm_call" where
  "seed_call request i =
     \<lparr>call_prompt = create_seed_prompt request i, call_temperature = 8 / 10,
      call_max_tokens = 1000\<rparr>"

text \<open>The example the seed loop builds in iteration \<open>i\<close> from the response of its call.\<close>

definition seed_example ::
  "GenerationRequest \<Rightarrow> (nat \<Rightarrow> datetime) \<Rightarrow> string \<Rightarrow> nat \<Rightarrow> llm_response \<Rightarrow> TeacherExample" where
  "seed_example request clock name i response =
     \<lparr>ex_input = create_seed_prompt request i,
      ex_output = get_default (resp_content response) [],
      ex_confidence = get_default (resp_confidence response) 0,
      ex_tokens_used = get_default (resp_tokens_used response) 0,
      ex_model = name,
      ex_timestamp = clock i,
      ex_context = \<lparr>ctx_keywords = Some (req_keywords request), ctx_iteration = Some i\<rparr>\<rparr>"

text \<open>
  What iteration \<open>i\<close> of a seed generation started on \<open>tm\<close> contributes: nothing when its
  call, the \<open>i\<close>-th after those the provider has seen, raises, and the example built
  from the response when it returns.
\<close>

definition seed_outcome ::
  "GenerationRequest \<Rightarrow> (nat \<Rightarrow> datetime) \<Rightarrow> TeacherModel \<Rightarrow> nat \<Rightarrow> TeacherExample option" where
  "seed_outcome request clock tm i =
     (case outcomes (teacher_provider tm) (length (calls (teacher_provider tm)) + i)
             (seed_call request i) of
        Inl e \<Rightarrow> None
      | Inr response \<Rightarrow> Some (seed_example request clock (teacher_model_name tm) i response))"

text \<open>The teacher examples and the student items of a run of \<open>generate_dataset\<close>.\<close>

definition seed_examples ::
  "KnowledgeDistillationOrchestrator \<Rightarrow> run_env \<Rightarrow> GenerationRequest \<Rightarrow> TeacherExample list" where
  "seed_examples orch env request =
     fst (generate_seed_data (teacher orch) (env_clock env) request)"

definition student_output ::
  "KnowledgeDistillationOrchestrator \<Rightarrow> run_env \<Rightarrow> GenerationRequest \<Rightarrow> student_item list" where
  "student_output orch env request =
     fst (generate_bulk_data
            (snd (learn_from_teacher (student orch) (seed_examples orch env request))) request)"

subsection \<open>Concrete providers and requests used in the examples\<close>

definition failing_provider :: LLMProvider where
  "failing_provider = \<lparr>outcomes = (\<lambda>n c. Inl ProviderError), calls = []\<rparr>"

text \<open>A provider whose second call fails.\<close>

definition flaky_provider :: LLMProvider where
  "flaky_provider =
     \<lparr>outcomes = (\<lambda>n c. if n = 1 then Inl ProviderError
                          else Inr \<lparr>resp_content = Some ''text'', resp_confidence = Some (9 / 10),
                                    resp_tokens_used = Some 100\<rparr>),
      calls = []\<rparr>"

definition scoring_provider :: LLMProvider where
  "scoring_provider =
     \<lparr>outcomes = (\<lambda>n c. Inr \<lparr>resp_content = Some ''0.85'', resp_confidence = Some (9 / 10),
                               resp_tokens_used = Some 100\<rparr>),
      calls = []\<rparr>"

definition example_orchestrator ::
  "LLMProvider \<Rightarrow> LLMProvider \<Rightarrow> KnowledgeDistillationOrchestrator" where
  "example_orchestrator tp sp =
     \<lparr>teacher = \<lparr>teacher_provider = tp, teacher_model_name = ''teacher'', examples_cache = []\<rparr>,
      student = \<lparr>student_provider = sp, student_model_name = ''student'',
                 learned_patterns = [], performance_metrics = []\<rparr>\<rparr>"

definition example_env :: run_env where
  "example_env = \<lparr>env_uuid = ''id'', env_clock = (\<lambda>i. example_now), env_elapsed = 1\<rparr>"

definition example_request :: "int \<Rightarrow> GenerationRequest" where
  "example_request q =
     \<lparr>req_keywords = [''AI''], data_type = ''qa'', quantity = q,
      quality_threshold = 8 / 10, strategy = RESPONSE_BASED\<rparr>"

section \<open>Pattern extractor (\<open>transfer.py\<close>, \<open>PatternExtractor\<close>)\<close>

record KnowledgePattern =
  pattern_id :: string
  pattern_type :: string
  pattern_keywords :: "string list"
  template :: string
  pattern_examples :: "string list"
  confidence :: real
  frequency :: nat
  last_updated :: datetime

text \<open>
  What the extractor takes from libraries and from outside: the hexadecimal MD5 digest
  of a text (\<open>hashlib\<close>), the number of matches of the regular expression for
  capitalised terms (\<open>re.findall\<close>), and the clock that stamps a new pattern.
\<close>

record extractor_env =
  md5_hexdigest :: "string \<Rightarrow> string"
  findall_terms :: "string \<Rightarrow> nat"
  pattern_clock :: datetime

subsection \<open>String operations\<close>

text \<open>\<open>s.split(c)\<close> for a separator of one character.\<close>

fun split_on :: "char \<Rightarrow> string \<Rightarrow> string list" where
  "split_on c [] = [[]]"
| "split_on c (x # xs) =
     (if x = c then [] # split_on c xs
      else (case split_on c xs of
              [] \<Rightarrow> [[x]]
            | y # ys \<Rightarrow> (x # y) # ys))"

text \<open>\<open>s.split()\<close>: the maximal runs of characters that are not white space.\<close>

fun split_ws_from :: "string \<Rightarrow> string \<Rightarrow> string list" where
  "split_ws_from cur [] = (if cur = [] then [] else [cur])"
| "split_ws_from cur (c # cs) =
     (if is_space c
      then (if cur = [] then split_ws_from [] cs else cur # split_ws_from [] cs)
      else split_ws_from (cur @ [c]) cs)"

definition split_ws :: "string \<Rightarrow> string list" where
  "split_ws s = split_ws_from [] s"

text \<open>
  The lower-case letter of a capital: of \<open>A\<close> to \<open>Z\<close> (65 to 90) and of the accented
  capitals 192 to 222, the multiplication sign 215 among them left as it is.
\<close>

definition to_lower :: "char \<Rightarrow> char" where
  "to_lower c =
     (if (65 \<le> (of_char c :: nat) \<and> (of_char c :: nat) \<le> 90)
         \<or> (192 \<le> (of_char c :: nat) \<and> (of_char c :: nat) \<le> 222
             \<and> (of_char c :: nat) \<noteq> 215)
      then char_of ((of_char c :: nat) + 32) else c)"

text \<open>\<open>s.lower()\<close>\<close>

definition lower :: "string \<Rightarrow> string" where
  "lower s = map to_lower s"

definition startswith :: "string \<Rightarrow> string \<Rightarrow> bool" where
  "startswith s pre = (take (length pre) s = pre)"

definition endswith :: "string \<Rightarrow> string \<Rightarrow> bool" where
  "endswith s suf = (length suf \<le> length s \<and> drop (length s - length suf) s = suf)"

text \<open>\<open>s.count(sub)\<close>: the occurrences of \<open>sub\<close>, found from the left without overlap.\<close>

function count_sub :: "string \<Rightarrow> string \<Rightarrow> nat" where
  "count_sub sub s =
     (if sub = [] then length s + 1
      else if length s < length sub then 0
      else if startswith s sub then 1 + count_sub sub (drop (length sub) s)
      else count_sub sub (tl s))"
  by pat_completeness auto
termination
  by (relation "measure (\<lambda>(sub, s). length s)") (auto simp: not_less intro!: diff_less)

subsection \<open>Grouping\<close>

text \<open>
  \<open>groups = defaultdict(list)\<close> filled by \<open>groups[key].append(x)\<close>, and read in the order
  of \<open>groups.items()\<close>, the order in which the keys were first seen.
\<close>

fun group_append :: "('k \<times> 'a list) list \<Rightarrow> 'k \<Rightarrow> 'a \<Rightarrow> ('k \<times> 'a list) list" where
  "group_append [] k x = [(k, [x])]"
| "group_append ((k', xs) # g) k x =
     (if k' = k then (k', xs @ [x]) # g else (k', xs) # group_append g k x)"

definition group_by :: "('a \<Rightarrow> 'k) \<Rightarrow> 'a list \<Rightarrow> ('k \<times> 'a list) list" where
  "group_by key xs = foldl (\<lambda>g x. group_append g (key x) x) [] xs"

subsection \<open>Helpers of the passes\<close>

definition structure_token :: "string \<Rightarrow> string" where
  "structure_token line =
     (if startswith line ''#'' then ''HEADER''
      else if startswith line ''-'' \<or> startswith line ''*'' then ''LIST''
      else if startswith line ''1.'' \<or> startswith line ''2.'' \<or> startswith line ''3.''
        then ''NUMBERED''
      else if endswith line '':'' then ''LABEL''
      else if CHR ''?'' \<in> set line then ''QUESTION''
      else ''TEXT'')"

definition get_structure_signature :: "string \<Rightarrow> string" where
  "get_structure_signature text =
     (let lines = split_on (CHR 0x0A) text;
          structure = map structure_token (filter (\<lambda>line. line \<noteq> []) (map strip lines))
      in py_join ''_'' (take 10 structure))"

definition calculate_formality :: "string \<Rightarrow> real" where
  "calculate_formality text =
     (let formal_indicators =
            [''therefore'', ''however'', ''furthermore'', ''nevertheless'', ''consequently''];
          informal_indicators =
            [''don'' @ [CHR 0x27] @ ''t'', ''can'' @ [CHR 0x27] @ ''t'',
             ''won'' @ [CHR 0x27] @ ''t'', ''I'' @ [CHR 0x27] @ ''m'',
             ''it'' @ [CHR 0x27] @ ''s'', ''that'' @ [CHR 0x27] @ ''s''];
          formal_count = sum_list (map (\<lambda>word. count_sub word (lower text)) formal_indicators);
          informal_count = sum_list (map (\<lambda>word. count_sub word (lower text)) informal_indicators);
          total_words = length (split_ws text);
          formal_ratio = real formal_count / real (max 1 total_words) * 100;
          informal_ratio = real informal_count / real (max 1 total_words) * 100
      in max 0 (formal_ratio - informal_ratio))"

record style_features =
  sentence_length :: real
  formality :: real
  technical_terms :: nat
  question_ratio :: real

text \<open>\<open>np.mean\<close> of a non-empty list of word counts.\<close>

definition mean_nat :: "nat list \<Rightarrow> real" where
  "mean_nat ns = real (sum_list ns) / real (length ns)"

definition example_style_features :: "extractor_env \<Rightarrow> TeacherExample \<Rightarrow> style_features" where
  "example_style_features env example =
     \<lparr>sentence_length =
        mean_nat (map (\<lambda>s. length (split_ws s)) (split_on (CHR ''.'') (ex_output example))),
      formality = calculate_formality (ex_output example),
      technical_terms = findall_terms env (ex_output example),
      question_ratio =
        real (count_sub ''?'' (ex_output example))
          / real (max 1 (count_sub ''.'' (ex_output example)))\<rparr>"

definition classify_style :: "style_features \<Rightarrow> string" where
  "classify_style features =
     (if formality features > 2 \<and> technical_terms features > 3 then ''academic''
      else if question_ratio features > 2 / 10 then ''conversational''
      else if sentence_length features > 15 then ''detailed''
      else ''casual'')"

text \<open>
  \<open>_extract_common_keywords\<close>: the keywords of the examples counted in a dictionary,
  sorted by falling count (\<open>sorted\<close> is stable), the first five kept.
\<close>

fun count_key :: "('k \<times> nat) list \<Rightarrow> 'k \<Rightarrow> ('k \<times> nat) list" where
  "count_key [] k = [(k, 1)]"
| "count_key ((k', n) # d) k =
     (if k' = k then (k', n + 1) # d else (k', n) # count_key d k)"

definition extract_common_keywords :: "TeacherExample list \<Rightarrow> string list" where
  "extract_common_keywords examples =
     (let all_keywords =
            concat (map (\<lambda>ex. get_default (ctx_keywords (ex_context ex)) []) examples);
          keyword_counts = foldl count_key [] all_keywords
      in map fst (take 5 (sort_key (\<lambda>(k, v). - int v) keyword_counts)))"

definition create_structure_template :: "TeacherExample list \<Rightarrow> string" where
  "create_structure_template examples =
     ''Structure template based on '' @ str_nat (length examples) @ '' examples''"

definition create_style_template :: "(TeacherExample \<times> style_features) list \<Rightarrow> string" where
  "create_style_template grp =
     ''Style template for '' @ str_nat (length grp) @ '' examples''"

definition create_content_template :: "TeacherExample list \<Rightarrow> string" where
  "create_content_template examples =
     ''Content template for topic with '' @ str_nat (length examples) @ '' examples''"

definition create_format_template :: "string \<Rightarrow> TeacherExample list \<Rightarrow> string" where
  "create_format_template format_type examples =
     format_type @ '' format template from '' @ str_nat (length examples) @ '' examples''"

definition detect_format_type :: "string \<Rightarrow> string option" where
  "detect_format_type text =
     (let text_lower = strip (lower text)
      in if startswith text_lower ''{'' \<and> endswith text_lower ''}'' then Some ''json''
         else if startswith text_lower ''['' \<and> endswith text_lower '']'' then Some ''list''
         else if CHR ''|'' \<in> set text \<and> CHR 0x0A \<in> set text then Some ''table''
         else if count_sub [CHR 0x0A] text > 5
              \<and> list_ex (\<lambda>line. startswith (strip line) ''-'' \<or> startswith (strip line) ''*'')
                   (split_on (CHR 0x0A) text)
           then Some ''bullet_list''
         else None)"

subsection \<open>The four passes\<close>

definition extract_structural_patterns ::
  "extractor_env \<Rightarrow> TeacherExample list \<Rightarrow> KnowledgePattern list" where
  "extract_structural_patterns env examples =
     (let structure_groups = group_by (\<lambda>ex. get_structure_signature (ex_output ex)) examples
      in map (\<lambda>(structure_key, grp).
                \<lparr>pattern_id = ''struct_'' @ take 8 (md5_hexdigest env structure_key),
                 pattern_type = ''structure'',
                 pattern_keywords = extract_common_keywords grp,
                 template = create_structure_template grp,
                 pattern_examples = map ex_output (take 3 grp),
                 confidence = min 1 (real (length grp) / 10),
                 frequency = length grp,
                 last_updated = pattern_clock env\<rparr>)
           (filter (\<lambda>(structure_key, grp). length grp \<ge> 2) structure_groups))"

definition extract_style_patterns ::
  "extractor_env \<Rightarrow> TeacherExample list \<Rightarrow> KnowledgePattern list" where
  "extract_style_patterns env examples =
     (let style_groups =
            group_by (\<lambda>(ex, features). classify_style features)
              (map (\<lambda>ex. (ex, example_style_features env ex)) examples)
      in map (\<lambda>(style_key, grp).
                (let examples_in_group = map fst grp
                 in \<lparr>pattern_id = ''style_'' @ style_key,
                     pattern_type = ''style'',
                     pattern_keywords = extract_common_keywords examples_in_group,
                     template = create_style_template grp,
                     pattern_examples = map ex_output (take 3 examples_in_group),
                     confidence = min 1 (real (length grp) / 15),
                     frequency = length grp,
                     last_updated = pattern_clock env\<rparr>))
           (filter (\<lambda>(style_key, grp). length grp \<ge> 3) style_groups))"

text \<open>The keywords an example carries, when the list is there and not empty.\<close>

definition context_keywords :: "TeacherExample \<Rightarrow> string list" where
  "context_keywords ex = get_default (ctx_keywords (ex_context ex)) []"

definition topic_key :: "TeacherExample \<Rightarrow> string" where
  "topic_key ex = py_join ''_'' (sort (context_keywords ex))"

definition extract_content_patterns ::
  "extractor_env \<Rightarrow> TeacherExample list \<Rightarrow> KnowledgePattern list" where
  "extract_content_patterns env examples =
     (let content_groups = group_by topic_key (filter (\<lambda>ex. context_keywords ex \<noteq> []) examples)
      in map (\<lambda>(key, grp).
                \<lparr>pattern_id = ''content_'' @ take 8 (md5_hexdigest env key),
                 pattern_type = ''content'',
                 pattern_keywords = split_on (CHR ''_'') key,
                 template = create_content_template grp,
                 pattern_examples = map ex_output (take 3 grp),
                 confidence = min 1 (real (length grp) / 8),
                 frequency = length grp,
                 last_updated = pattern_clock env\<rparr>)
           (filter (\<lambda>(key, grp). length grp \<ge> 2) content_groups))"

definition extract_format_patterns ::
  "extractor_env \<Rightarrow> TeacherExample list \<Rightarrow> KnowledgePattern list" where
  "extract_format_patterns env examples =
     (let format_groups =
            group_by (\<lambda>ex. the (detect_format_type (ex_output ex)))
              (filter (\<lambda>ex. detect_format_type (ex_output ex) \<noteq> None) examples)
      in map (\<lambda>(format_type, grp).
                \<lparr>pattern_id = ''format_'' @ format_type,
                 pattern_type = ''format'',
                 pattern_keywords = extract_common_keywords grp,
                 template = create_format_template format_type grp,
                 pattern_examples = map ex_output (take 2 grp),
                 confidence = 9 / 10,
                 frequency = length grp,
                 last_updated = pattern_clock env\<rparr>)
           (filter (\<lambda>(format_type, grp). length grp \<ge> 2) format_groups))"

text \<open>
  \<open>extract_patterns\<close>: the patterns of the four passes in order, and the extractor's
  dictionary \<open>self.patterns\<close> with each of them stored under its identifier.
\<close>

definition extract_patterns ::
  "extractor_env \<Rightarrow> (string \<times> KnowledgePattern) list \<Rightarrow> TeacherExample list
     \<Rightarrow> KnowledgePattern list \<times> (string \<times> KnowledgePattern) list" where
  "extract_patterns env stored teacher_examples =
     (let patterns = extract_structural_patterns env teacher_examples
                   @ extract_style_patterns env teacher_examples
                   @ extract_content_patterns env teacher_examples
                   @ extract_format_patterns env teacher_examples
      in (patterns, foldl (\<lambda>d pattern. dict_set d (pattern_id pattern) pattern) stored patterns))"

subsection \<open>Concrete examples used below\<close>

definition example_extractor_env :: extractor_env where
  "example_extractor_env =
     \<lparr>md5_hexdigest = (\<lambda>s. ''0123456789abcdef0123456789abcdef''),
      findall_terms = (\<lambda>s. 0),
      pattern_clock = example_now\<rparr>"

definition example_teacher_example :: TeacherExample where
  "example_teacher_example =
     \<lparr>ex_input = ''What is AI?'', ex_output = ''AI.'',
      ex_confidence = 9 / 10, ex_tokens_used = 50, ex_model = ''teacher'',
      ex_timestamp = example_now,
      ex_context = \<lparr>ctx_keywords = Some [''AI''], ctx_iteration = None\<rparr>\<rparr>"

section \<open>Cost optimizer (\<open>cost_optimizer.py\<close>, \<open>IntelligentCostOptimizer\<close>)\<close>

record ModelCostProfile =
  provider :: string
  model_name :: string
  input_cost_per_token :: real
  output_cost_per_token :: real
  quality_rating :: real
  speed_rating :: real
  reliability_rating :: real
  profile_last_updated :: datetime

record GenerationCostEstimate =
  estimated_input_tokens :: int
  estimated_output_tokens :: int
  estimated_cost :: real
  estimated_time :: real
  quality_expectation :: real
  estimate_confidence :: real

text \<open>
  The request of the optimizer is a dictionary; each key it reads is optional.
  \<open>rq_context\<close> is \<open>str(request['context'])\<close> when the key is there.
\<close>

record cost_request =
  rq_keywords :: "string list option"
  rq_context :: "string option"
  rq_data_type :: "string option"
  rq_quantity :: "int option"
  rq_quality_threshold :: "real option"

text \<open>\<open>self.model_profiles\<close>, a dictionary in insertion order.\<close>

type_synonym model_profiles = "(string \<times> ModelCostProfile) list"

definition estimate_input_tokens :: "cost_request \<Rightarrow> int" where
  "estimate_input_tokens request =
     (let base_prompt_tokens = 100;
          keyword_tokens = int (length (get_default (rq_keywords request) [])) * 5;
          context_tokens = int (length (get_default (rq_context request) [])) div 4
      in base_prompt_tokens + keyword_tokens + context_tokens)"

definition tokens_per_item :: "string \<Rightarrow> int" where
  "tokens_per_item dt =
     (if dt = ''qa'' then 50
      else if dt = ''classification'' then 20
      else if dt = ''generation'' then 100
      else if dt = ''code'' then 150
      else if dt = ''translation'' then 80
      else 75)"

definition estimate_output_tokens :: "cost_request \<Rightarrow> int" where
  "estimate_output_tokens request =
     (let dt = get_default (rq_data_type request) ''qa'';
          q = get_default (rq_quantity request) 1
      in tokens_per_item dt * q)"

text \<open>
  \<open>estimate_generation_cost(request, model_key)\<close>: an unknown key raises \<open>ValueError\<close>,
  and the division by a speed rating of zero \<open>ZeroDivisionError\<close>.
\<close>

definition estimate_generation_cost ::
  "model_profiles \<Rightarrow> cost_request \<Rightarrow> string \<Rightarrow> py_error + GenerationCostEstimate" where
  "estimate_generation_cost profiles request model_key =
     (case map_of profiles model_key of
        None \<Rightarrow> Inl ValueError
      | Some profile \<Rightarrow>
          (let input_tokens = estimate_input_tokens request;
               output_tokens = estimate_output_tokens request;
               input_cost = (real_of_int input_tokens / 1000) * input_cost_per_token profile;
               output_cost = (real_of_int output_tokens / 1000) * output_cost_per_token profile
           in if speed_rating profile = 0 then Inl ZeroDivisionError
              else Inr \<lparr>estimated_input_tokens = input_tokens,
                        estimated_output_tokens = output_tokens,
                        estimated_cost = input_cost + output_cost,
                        estimated_time =
                          real_of_int (get_default (rq_quantity request) 1) / speed_rating profile,
                        quality_expectation = quality_rating profile,
                        estimate_confidence = reliability_rating profile\<rparr>))"

text \<open>\<open>max(xs, key=f)\<close> and \<open>min(xs, key=f)\<close> on a non-empty list: the first such element.\<close>

fun max_by :: "('a \<Rightarrow> real) \<Rightarrow> 'a \<Rightarrow> 'a list \<Rightarrow> 'a" where
  "max_by f best [] = best"
| "max_by f best (x # xs) = max_by f (if f x > f best then x else best) xs"

fun min_by :: "('a \<Rightarrow> real) \<Rightarrow> 'a \<Rightarrow> 'a list \<Rightarrow> 'a" where
  "min_by f best [] = best"
| "min_by f best (x # xs) = min_by f (if f x < f best then x else best) xs"

text \<open>
  The two selections read \<open>self.model_profiles[k]\<close> for keys of the dictionary only;
  \<open>list(self.model_profiles.keys())[0]\<close> raises \<open>IndexError\<close> on an empty dictionary.
\<close>

definition select_best_teacher_model :: "model_profiles \<Rightarrow> cost_request \<Rightarrow> py_error + string" where
  "select_best_teacher_model profiles request =
     (let teacher_models = filter (\<lambda>(k, p). quality_rating p > 8 / 10) profiles
      in case teacher_models of
           [] \<Rightarrow> (case profiles of [] \<Rightarrow> Inl IndexError | (k, p) # _ \<Rightarrow> Inr k)
         | m # ms \<Rightarrow> Inr (fst (max_by (\<lambda>(k, p). quality_rating p) m ms)))"

definition select_best_student_model :: "model_profiles \<Rightarrow> cost_request \<Rightarrow> py_error + string" where
  "select_best_student_model profiles request =
     (let student_models = filter (\<lambda>(k, p). input_cost_per_token p < 1 / 100) profiles
      in case student_models of
           [] \<Rightarrow> (case profiles of [] \<Rightarrow> Inl IndexError | (k, p) # _ \<Rightarrow> Inr k)
         | m # ms \<Rightarrow> Inr (fst (min_by (\<lambda>(k, p). input_cost_per_token p) m ms)))"

text \<open>
  A \<open>numpy.float64\<close> value as far as the score needs it: the teacher ratio comes from
  \<open>np.arange\<close>, so the expected quality is a \<open>numpy.float64\<close>, and its division by a
  total cost of zero gives an infinity or a NaN (with a warning), not an exception.
\<close>

datatype np_float = Finite real | PosInf | NegInf | NaN

definition np_divide :: "real \<Rightarrow> real \<Rightarrow> np_float" where
  "np_divide a b =
     (if b \<noteq> 0 then Finite (a / b)
      else if a > 0 then PosInf else if a < 0 then NegInf else NaN)"

fun np_times :: "np_float \<Rightarrow> real \<Rightarrow> np_float" where
  "np_times (Finite a) c = Finite (a * c)"
| "np_times PosInf c = (if c > 0 then PosInf else if c < 0 then NegInf else NaN)"
| "np_times NegInf c = (if c > 0 then NegInf else if c < 0 then PosInf else NaN)"
| "np_times NaN c = NaN"

fun np_greater :: "np_float \<Rightarrow> np_float \<Rightarrow> bool" where
  "np_greater (Finite a) (Finite b) = (a > b)"
| "np_greater (Finite a) NegInf = True"
| "np_greater PosInf (Finite b) = True"
| "np_greater PosInf NegInf = True"
| "np_greater _ _ = False"

record allocation =
  alloc_teacher_model :: string
  alloc_student_model :: string
  alloc_teacher_quantity :: int
  alloc_student_quantity :: int
  alloc_teacher_cost :: real
  alloc_student_cost :: real
  alloc_total_cost :: real
  alloc_expected_quality :: real
  alloc_teacher_ratio :: real
  alloc_efficiency_score :: np_float

text \<open>
  \<open>np.arange(0.05, 0.5, 0.05)\<close>: the values \<open>0.05 + i * 0.05\<close> for
  \<open>i < ceil((0.5 - 0.05) / 0.05) = 9\<close>.
\<close>

definition teacher_ratios :: "real list" where
  "teacher_ratios = map (\<lambda>i. 5 / 100 + real i * (5 / 100)) [0 ..< 9]"

text \<open>
  The body of the loop for one teacher ratio, up to the two checks: an exception, or
  \<open>None\<close> when a check rejects the ratio (\<open>continue\<close>), or the allocation the ratio
  stands for with its score.
\<close>

definition evaluate_ratio ::
  "model_profiles \<Rightarrow> cost_request \<Rightarrow> CostBudget \<Rightarrow> real
     \<Rightarrow> py_error + (allocation \<times> np_float) option" where
  "evaluate_ratio profiles request budget teacher_ratio =
     (let total_quantity = get_default (rq_quantity request) 100;
          quality_threshold = get_default (rq_quality_threshold request) (8 / 10);
          student_ratio = 1 - teacher_ratio;
          teacher_quantity = py_int (real_of_int total_quantity * teacher_ratio);
          student_quantity = total_quantity - teacher_quantity
      in case select_best_teacher_model profiles request of
           Inl e \<Rightarrow> Inl e
         | Inr teacher_model \<Rightarrow>
      (case select_best_student_model profiles request of
           Inl e \<Rightarrow> Inl e
         | Inr student_model \<Rightarrow>
      (case estimate_generation_cost profiles
              (request\<lparr>rq_quantity := Some teacher_quantity\<rparr>) teacher_model of
           Inl e \<Rightarrow> Inl e
         | Inr teacher_estimate \<Rightarrow>
      (case estimate_generation_cost profiles
              (request\<lparr>rq_quantity := Some student_quantity\<rparr>) student_model of
           Inl e \<Rightarrow> Inl e
         | Inr student_estimate \<Rightarrow>
      (let total_cost = estimated_cost teacher_estimate + estimated_cost student_estimate
       in if total_cost > total_budget budget then Inr None
          else (let expected_quality =
                      quality_expectation teacher_estimate * teacher_ratio
                      + quality_expectation student_estimate * student_ratio
                in if expected_quality < quality_threshold then Inr None
                   else (let efficiency = np_divide expected_quality total_cost;
                             score = np_times efficiency (1 - \<bar>teacher_ratio - 2 / 10\<bar>)
                         in Inr (Some
                              (\<lparr>alloc_teacher_model = teacher_model,
                                alloc_student_model = student_model,
                                alloc_teacher_quantity = teacher_quantity,
                                alloc_student_quantity = student_quantity,
                                alloc_teacher_cost = estimated_cost teacher_estimate,
                                alloc_student_cost = estimated_cost student_estimate,
                                alloc_total_cost = total_cost,
                                alloc_expected_quality = expected_quality,
                                alloc_teacher_ratio = teacher_ratio,
                                alloc_efficiency_score = efficiency\<rparr>, score)))))))))"

text \<open>
  The loop over the ratios still to scan, with \<open>best_allocation\<close> and \<open>best_score\<close>; an
  exception of the body ends the call.
\<close>

fun allocation_loop ::
  "model_profiles \<Rightarrow> cost_request \<Rightarrow> CostBudget \<Rightarrow> real list \<Rightarrow> allocation option \<Rightarrow> np_float
     \<Rightarrow> py_error + allocation option" where
  "allocation_loop profiles request budget [] best_allocation best_score = Inr best_allocation"
| "allocation_loop profiles request budget (r # rs) best_allocation best_score =
     (case evaluate_ratio profiles request budget r of
        Inl e \<Rightarrow> Inl e
      | Inr None \<Rightarrow> allocation_loop profiles request budget rs best_allocation best_score
      | Inr (Some (a, score)) \<Rightarrow>
          (if np_greater score best_score
           then allocation_loop profiles request budget rs (Some a) score
           else allocation_loop profiles request budget rs best_allocation best_score))"

text \<open>
  The result of \<open>optimize_teacher_student_allocation\<close>: the dictionary of the best
  allocation, or the dictionary \<open>{"error": "No viable allocation found"}\<close>.
\<close>

datatype allocation_result = Allocation allocation | NoViableAllocation

definition optimize_teacher_student_allocation ::
  "model_profiles \<Rightarrow> cost_request \<Rightarrow> CostBudget \<Rightarrow> py_error + allocation_result" where
  "optimize_teacher_student_allocation profiles request budget =
     (case allocation_loop profiles request budget teacher_ratios None (Finite (- 1)) of
        Inl e \<Rightarrow> Inl e
      | Inr None \<Rightarrow> Inr NoViableAllocation
      | Inr (Some a) \<Rightarrow> Inr (Allocation a))"

subsection \<open>Concrete profiles and requests used in the examples\<close>

definition strong_teacher_profile :: ModelCostProfile where
  "strong_teacher_profile =
     \<lparr>provider = ''openai'', model_name = ''teacher'', input_cost_per_token = 3 / 100,
      output_cost_per_token = 6 / 100, quality_rating = 1, speed_rating = 30,
      reliability_rating = 99 / 100, profile_last_updated = example_now\<rparr>"

definition weak_student_profile :: ModelCostProfile where
  "weak_student_profile =
     \<lparr>provider = ''openai'', model_name = ''student'', input_cost_per_token = 1 / 1000,
      output_cost_per_token = 2 / 1000, quality_rating = 6 / 10, speed_rating = 60,
      reliability_rating = 95 / 100, profile_last_updated = example_now\<rparr>"

definition good_student_profile :: ModelCostProfile where
  "good_student_profile =
     \<lparr>provider = ''openai'', model_name = ''student'', input_cost_per_token = 1 / 1000,
      output_cost_per_token = 2 / 1000, quality_rating = 8 / 10, speed_rating = 60,
      reliability_rating = 95 / 100, profile_last_updated = example_now\<rparr>"

definition example_profiles :: "ModelCostProfile \<Rightarrow> model_profiles" where
  "example_profiles student_profile =
     [(''openai_teacher'', strong_teacher_profile), (''openai_student'', student_profile)]"

definition example_cost_request :: cost_request where
  "example_cost_request =
     \<lparr>rq_keywords = Some [''AI''], rq_context = None, rq_data_type = Some ''qa'',
      rq_quantity = Some 100, rq_quality_threshold = Some (8 / 10)\<rparr>"

definition example_budget :: CostBudget where
  "example_budget =
     \<lparr>total_budget = 1000, daily_budget = None, hourly_budget = None,
      cost_per_item_limit = None, quality_cost_ratio_min = 1\<rparr>"

section \<open>Properties of the budget tracker\<close>

lemma dd_getitem_fst: "fst (dd_getitem d k) = spent d k"
  by (simp add: dd_getitem_def spent_def split: option.splits)

lemma dd_getitem_spent: "spent (snd (dd_getitem d k)) k' = spent d k'"
  by (simp add: dd_getitem_def spent_def split: option.splits)

lemma dd_getitem_again: "dd_getitem (snd (dd_getitem d k)) k = (spent d k, snd (dd_getitem d k))"
  by (simp add: dd_getitem_def spent_def split: option.splits)

text \<open>
  C1, as stated, fails: a daily ceiling of \<open>0.0\<close> is configured (it is not \<open>None\<close>),
  one unit of additional cost exceeds it, and the check still answers within budget,
  because the guard \<open>if budget.daily_budget:\<close> is false for \<open>0.0\<close>.
\<close>

theorem check_budget_zero_daily_counterexample:
  "exceeds_configured_ceiling BudgetTracker_init example_now budget_zero_daily 1 \<and>
   fst (check_budget_constraints BudgetTracker_init example_now budget_zero_daily 1)
     = Inr \<lparr>within_budget = True, issues = [], remaining_total = 100, utilization = 0\<rparr>"
  by (simp add: exceeds_configured_ceiling_def check_budget_constraints_def
      budget_zero_daily_def BudgetTracker_init_def example_now_def truthy_def spent_def
      strftime_date_def)

text \<open>
  C1, amended: whenever the spending so far plus the additional cost exceeds the total
  ceiling, or a daily or hourly ceiling that is set and not zero (for the current day,
  the current hour), the check does not report within budget: it returns a result whose
  \<open>within_budget\<close> is false, or raises.
\<close>

theorem check_budget_never_within_when_exceeded:
  assumes "exceeds_nonzero_ceiling tr now budget c"
  shows "case fst (check_budget_constraints tr now budget c) of
           Inl e \<Rightarrow> True | Inr r \<Rightarrow> \<not> within_budget r"
  using assms
  by (auto simp: check_budget_constraints_def exceeds_nonzero_ceiling_def truthy_def Let_def
      dd_getitem_def spent_def
      split: if_splits option.splits prod.splits)

theorem check_budget_never_within_when_exceeded_witness:
  "exceeds_nonzero_ceiling BudgetTracker_init example_now budget_daily5 6 \<and>
   (case fst (check_budget_constraints BudgetTracker_init example_now budget_daily5 6) of
      Inl e \<Rightarrow> False | Inr r \<Rightarrow> \<not> within_budget r \<and> length (issues r) = 1)"
proof -
  have ex: "exceeds_nonzero_ceiling BudgetTracker_init example_now budget_daily5 6"
    by (simp add: exceeds_nonzero_ceiling_def budget_daily5_def BudgetTracker_init_def
        spent_def)
  have run: "\<exists>r. fst (check_budget_constraints BudgetTracker_init example_now budget_daily5 6)
      = Inr r \<and> length (issues r) = 1"
    by (simp add: check_budget_constraints_def budget_daily5_def BudgetTracker_init_def
        truthy_def dd_getitem_def)
  from check_budget_never_within_when_exceeded [OF ex] run ex show ?thesis
    by auto
qed

text \<open>
  C10: the utilization is \<open>total_spending / budget.total_budget\<close> with no guard, so the
  check raises \<open>ZeroDivisionError\<close> exactly when the total budget is zero, and returns
  a result carrying that quotient otherwise.
\<close>

theorem check_budget_zero_total_raises:
  "case fst (check_budget_constraints tr now budget c) of
     Inl e \<Rightarrow> e = ZeroDivisionError \<and> total_budget budget = 0
   | Inr r \<Rightarrow> total_budget budget \<noteq> 0
       \<and> utilization r = total_spending tr / total_budget budget"
  by (auto simp: check_budget_constraints_def Let_def split: prod.splits if_splits)

theorem check_budget_zero_total_raises_witness:
  "fst (check_budget_constraints BudgetTracker_init example_now budget_zero_total 1)
     = Inl ZeroDivisionError"
  using check_budget_zero_total_raises [where tr = BudgetTracker_init and now = example_now
      and budget = budget_zero_total and c = 1]
  by (simp add: budget_zero_total_def split: sum.splits)

lemma check_budget_state:
  "snd (check_budget_constraints tr now budget c) =
     tr\<lparr>daily_spending := (if truthy (daily_budget budget)
            then snd (dd_getitem (daily_spending tr) (strftime_date now))
            else daily_spending tr),
        hourly_spending := (if truthy (hourly_budget budget)
            then snd (dd_getitem (hourly_spending tr) (strftime_hour now))
            else hourly_spending tr)\<rparr>"
  by (simp add: check_budget_constraints_def Let_def split: prod.splits)

lemma check_budget_twice_state:
  "snd (check_budget_constraints (snd (check_budget_constraints tr now budget c)) now budget c)
     = snd (check_budget_constraints tr now budget c)"
  by (simp add: check_budget_state dd_getitem_again)

lemma check_budget_result_depends:
  assumes "total_spending t1 = total_spending t2"
    and "spent (daily_spending t1) (strftime_date now)
       = spent (daily_spending t2) (strftime_date now)"
    and "spent (hourly_spending t1) (strftime_hour now)
       = spent (hourly_spending t2) (strftime_hour now)"
  shows "fst (check_budget_constraints t1 now budget c)
       = fst (check_budget_constraints t2 now budget c)"
  using assms
  by (simp add: check_budget_constraints_def Let_def split_beta dd_getitem_fst)

lemma check_budget_keeps_amounts:
  "total_spending (snd (check_budget_constraints tr now budget c)) = total_spending tr"
  "budget_alerts (snd (check_budget_constraints tr now budget c)) = budget_alerts tr"
  "spent (daily_spending (snd (check_budget_constraints tr now budget c))) k
     = spent (daily_spending tr) k"
  "spent (hourly_spending (snd (check_budget_constraints tr now budget c))) h
     = spent (hourly_spending tr) h"
  unfolding check_budget_state by (simp_all add: dd_getitem_spent)

text \<open>
  C7 does not hold of the code: the check is not free of side effects. The two
  dictionaries are \<open>defaultdict(float)\<close>, and the read \<open>self.daily_spending[today]\<close> stores
  \<open>0.0\<close> under a day that had no entry, where \<open>get_spending_report\<close> reads with \<open>.get\<close>
  and stores nothing. On a fresh tracker with a daily budget of 5 the tracker after the
  check differs from the tracker before it.
\<close>

theorem check_budget_mutates_counterexample:
  "snd (check_budget_constraints BudgetTracker_init example_now budget_daily5 1)
     \<noteq> BudgetTracker_init"
proof
  assume "snd (check_budget_constraints BudgetTracker_init example_now budget_daily5 1)
    = BudgetTracker_init"
  then have "daily_spending
      (snd (check_budget_constraints BudgetTracker_init example_now budget_daily5 1))
      (strftime_date example_now)
    = daily_spending BudgetTracker_init (strftime_date example_now)"
    by simp
  then show False
    by (simp add: check_budget_state budget_daily5_def truthy_def dd_getitem_def
        BudgetTracker_init_def)
qed

text \<open>
  What a check does keep: the total, the alerts and the amount recorded for every day
  and every hour, a missing entry counting as 0; and a second check with the same
  arguments, clock reading included, returns the result of the first and changes
  nothing more.
\<close>

theorem check_budget_idempotent:
  "(let (r1, t1) = check_budget_constraints tr now budget c;
        (r2, t2) = check_budget_constraints t1 now budget c
    in r2 = r1 \<and> t2 = t1
       \<and> total_spending t1 = total_spending tr
       \<and> budget_alerts t1 = budget_alerts tr
       \<and> (\<forall>k. spent (daily_spending t1) k = spent (daily_spending tr) k)
       \<and> (\<forall>h. spent (hourly_spending t1) h = spent (hourly_spending tr) h))
   \<and> total_spending (track_spending tr now amount ts) = total_spending tr + amount"
proof -
  obtain r1 t1 where c1: "check_budget_constraints tr now budget c = (r1, t1)"
    by (cases "check_budget_constraints tr now budget c")
  obtain r2 t2 where c2: "check_budget_constraints t1 now budget c = (r2, t2)"
    by (cases "check_budget_constraints t1 now budget c")
  have "t2 = t1"
    using check_budget_twice_state [of tr now budget c] c2 unfolding c1 by simp
  moreover have "r2 = r1"
    using check_budget_result_depends [of t1 tr now budget c] c2
      check_budget_keeps_amounts [of tr now budget c]
    unfolding c1 by simp
  moreover have "total_spending (track_spending tr now amount ts) = total_spending tr + amount"
    by (simp add: track_spending_def Let_def)
  ultimately show ?thesis
    using c2 check_budget_keeps_amounts [of tr now budget c] unfolding c1 by simp
qed

theorem check_budget_idempotent_witness:
  "(let (r1, t1) = check_budget_constraints BudgetTracker_init example_now budget_daily5 1;
        (r2, t2) = check_budget_constraints t1 example_now budget_daily5 1
    in r2 = r1 \<and> t2 = t1 \<and> total_spending t1 = 0)
   \<and> total_spending (track_spending BudgetTracker_init example_now 3 None) = 3"
  using check_budget_idempotent [of BudgetTracker_init example_now budget_daily5 1 3 None]
  by (simp add: split_beta BudgetTracker_init_def)

section \<open>Properties of the rate limiter\<close>

lemma newer_than_all: "\<forall>t\<in>set ts. t > c \<Longrightarrow> newer_than c ts = ts"
  by (simp add: newer_than_def)

lemma newer_than_hd:
  "newer_than c ts = t0 # rest \<Longrightarrow> t0 > c"
  by (metis filter_eq_ConsD newer_than_def)

lemma wait_if_needed_char:
  assumes N: "1 \<le> requests_per_minute rl"
  shows "wait_if_needed rl now woke =
     (let window = newer_than (now - 60) (request_times rl)
      in if requests_per_minute rl \<le> int (length window)
         then Inr (Some (hd window + 60 - now),
                   rl\<lparr>request_times := newer_than (woke - 60) window @ [woke]\<rparr>)
         else Inr (None, rl\<lparr>request_times := window @ [now]\<rparr>))"
proof (cases "newer_than (now - 60) (request_times rl)")
  case Nil
  then show ?thesis using N by (simp add: wait_if_needed_def Let_def)
next
  case (Cons t0 rest)
  then have "t0 > now - 60" by (rule newer_than_hd)
  then show ?thesis using Cons by (simp add: wait_if_needed_def Let_def algebra_simps)
qed

lemma run_calls_below_limit:
  assumes "int (length (request_times rl) + length cs) \<le> requests_per_minute rl"
    and "\<forall>t\<in>set (request_times rl). t > T - 60"
    and "\<forall>c\<in>set cs. fst c \<le> T \<and> fst c > T - 60"
    and "1 \<le> requests_per_minute rl"
  shows "run_calls rl cs =
     Inr (replicate (length cs) None, rl\<lparr>request_times := request_times rl @ map fst cs\<rparr>)"
  using assms
proof (induction cs arbitrary: rl)
  case Nil
  then show ?case by simp
next
  case (Cons c cs)
  obtain now woke where c: "c = (now, woke)" by (cases c)
  have nowT: "now \<le> T" "now > T - 60" using Cons.prems(3) c by auto
  have all: "\<forall>t\<in>set (request_times rl). t > now - 60"
    using Cons.prems(2) nowT by fastforce
  have win: "newer_than (now - 60) (request_times rl) = request_times rl"
    using all by (rule newer_than_all)
  have lt: "\<not> requests_per_minute rl \<le> int (length (request_times rl))"
    using Cons.prems(1) by simp
  let ?rl' = "rl\<lparr>request_times := request_times rl @ [now]\<rparr>"
  have step: "wait_if_needed rl now woke = Inr (None, ?rl')"
    using wait_if_needed_char [OF Cons.prems(4), of now woke] win lt by (simp add: Let_def)
  have "run_calls ?rl' cs =
     Inr (replicate (length cs) None, ?rl'\<lparr>request_times := request_times ?rl' @ map fst cs\<rparr>)"
  proof (rule Cons.IH)
    show "int (length (request_times ?rl') + length cs) \<le> requests_per_minute ?rl'"
      using Cons.prems(1) by simp
    show "\<forall>t\<in>set (request_times ?rl'). t > T - 60"
      using Cons.prems(2) nowT by simp
    show "\<forall>c\<in>set cs. fst c \<le> T \<and> fst c > T - 60"
      using Cons.prems(3) by simp
    show "1 \<le> requests_per_minute ?rl'" using Cons.prems(4) by simp
  qed
  then show ?case using step c by simp
qed

lemma run_calls_append:
  "run_calls rl (cs @ ds) =
     (case run_calls rl cs of
        Inl e \<Rightarrow> Inl e
      | Inr (ss, rl') \<Rightarrow>
          (case run_calls rl' ds of
             Inl e \<Rightarrow> Inl e
           | Inr (ss', rl'') \<Rightarrow> Inr (ss @ ss', rl'')))"
  by (induction rl cs rule: run_calls.induct) (auto split: sum.splits prod.splits)

lemma suspensions_quiet: "suspensions (replicate n None @ [Some w]) = 1"
  by (simp add: suspensions_def)


lemma run_calls_burst:
  fixes N :: nat
  assumes N: "1 \<le> N"
    and len: "length cs = N"
    and sorted: "sorted (map fst (cs @ [(now, woke)]))"
    and rapid: "now < fst (hd cs) + 60"
  shows "\<exists>rl'. run_calls (RateLimiter_init (int N)) (cs @ [(now, woke)]) =
       Inr (replicate N None @ [Some (fst (hd cs) + 60 - now)], rl')"
proof -
  let ?rl = "RateLimiter_init (int N)"
  have cs_ne: "cs \<noteq> []" using N len by auto
  have le_now: "\<forall>c\<in>set cs. fst c \<le> now"
    using sorted by (auto simp: sorted_append)
  have ge_hd: "\<forall>c\<in>set cs. fst (hd cs) \<le> fst c"
    using sorted cs_ne by (cases cs) (auto simp: sorted_append)
  have in_win: "\<forall>c\<in>set cs. fst c \<le> now \<and> fst c > now - 60"
    using le_now ge_hd rapid by fastforce
  have quiet: "run_calls ?rl cs =
      Inr (replicate (length cs) None, ?rl\<lparr>request_times := request_times ?rl @ map fst cs\<rparr>)"
    by (rule run_calls_below_limit [where T = now])
      (use N len in_win in \<open>auto simp: RateLimiter_init_def\<close>)
  let ?rl1 = "?rl\<lparr>request_times := map fst cs\<rparr>"
  have quiet': "run_calls ?rl cs = Inr (replicate N None, ?rl1)"
    using quiet len by (simp add: RateLimiter_init_def)
  have win: "newer_than (now - 60) (request_times ?rl1) = map fst cs"
    using in_win by (simp add: newer_than_def)
  have hd: "hd (map fst cs) = fst (hd cs)" using cs_ne by (simp add: hd_map)
  have "wait_if_needed ?rl1 now woke =
      Inr (Some (fst (hd cs) + 60 - now),
           ?rl1\<lparr>request_times := newer_than (woke - 60) (map fst cs) @ [woke]\<rparr>)"
    using wait_if_needed_char [of ?rl1 now woke] win hd N len
    by (simp add: Let_def RateLimiter_init_def)
  then show ?thesis using quiet' by (simp add: run_calls_append)
qed

lemma newer_than_sorted_hd:
  assumes "sorted ts" and "t \<in> set (newer_than c ts)"
  shows "hd (newer_than c ts) \<le> t"
proof -
  have "sorted (newer_than c ts)" using assms(1) by (simp add: newer_than_def sorted_wrt_filter)
  then show ?thesis using assms(2) by (cases "newer_than c ts") auto
qed

text \<open>
  C8, as stated for every limit, fails: with a limit of 0 the first call finds an empty
  window that already holds the limit and reads \<open>self.request_times[0]\<close>, which raises
  \<open>IndexError\<close>; the call neither suspends nor records its timestamp.
\<close>

theorem wait_if_needed_zero_limit_counterexample:
  "wait_if_needed (RateLimiter_init 0) 0 0 = Inl IndexError
   \<and> run_calls (RateLimiter_init 0) [(0, 0)] = Inl IndexError"
  by (simp add: wait_if_needed_def RateLimiter_init_def newer_than_def)

text \<open>
  C8, amended: for a limit \<open>N \<ge> 1\<close> and a single caller, a call keeps the timestamps newer than
  60 seconds (the window), sleeps exactly when the window holds at least \<open>N\<close> of them,
  for the time after which the first, which is the oldest when the timestamps are in
  order, is 60 seconds old, and then appends its own timestamp. Hence \<open>N + 1\<close> calls on a
  fresh limiter, at non-decreasing clock readings the last of which is less than 60
  seconds after the first, raise nothing and sleep exactly once, in the last call.
\<close>

theorem wait_if_needed_sliding_window:
  fixes N :: nat
  assumes N: "1 \<le> N"
  shows "(requests_per_minute rl = int N \<longrightarrow>
          (\<exists>s rl'. wait_if_needed rl t woke' = Inr (s, rl')
             \<and> (s \<noteq> None) = (N \<le> length (newer_than (t - 60) (request_times rl)))
             \<and> (case s of
                  None \<Rightarrow> request_times rl' = newer_than (t - 60) (request_times rl) @ [t]
                | Some w \<Rightarrow> 0 < w
                    \<and> t + w = hd (newer_than (t - 60) (request_times rl)) + 60
                    \<and> request_times rl'
                      = newer_than (woke' - 60) (newer_than (t - 60) (request_times rl)) @ [woke'])
             \<and> (sorted (request_times rl) \<longrightarrow>
                  (\<forall>u\<in>set (newer_than (t - 60) (request_times rl)).
                      hd (newer_than (t - 60) (request_times rl)) \<le> u))))
       \<and> (length cs = N \<and> sorted (map fst (cs @ [(now, woke)])) \<and> now < fst (hd cs) + 60 \<longrightarrow>
          (\<exists>ss rl'. run_calls (RateLimiter_init (int N)) (cs @ [(now, woke)]) = Inr (ss, rl')
             \<and> take N ss = replicate N None
             \<and> ss ! N = Some (fst (hd cs) + 60 - now)
             \<and> suspensions ss = 1))"
proof (intro conjI impI)
  assume rpm: "requests_per_minute rl = int N"
  let ?w = "newer_than (t - 60) (request_times rl)"
  have one: "1 \<le> requests_per_minute rl" using N rpm by simp
  have sortedhd: "sorted (request_times rl) \<longrightarrow> (\<forall>u\<in>set ?w. hd ?w \<le> u)"
    using newer_than_sorted_hd by blast
  show "\<exists>s rl'. wait_if_needed rl t woke' = Inr (s, rl')
             \<and> (s \<noteq> None) = (N \<le> length ?w)
             \<and> (case s of
                  None \<Rightarrow> request_times rl' = ?w @ [t]
                | Some w \<Rightarrow> 0 < w \<and> t + w = hd ?w + 60
                    \<and> request_times rl' = newer_than (woke' - 60) ?w @ [woke'])
             \<and> (sorted (request_times rl) \<longrightarrow> (\<forall>u\<in>set ?w. hd ?w \<le> u))"
  proof (cases "N \<le> length ?w")
    case True
    then obtain t0 rest where w: "?w = t0 # rest" using N by (cases ?w) auto
    then have "t0 > t - 60" by (rule newer_than_hd)
    then show ?thesis
      using wait_if_needed_char [OF one, of t woke'] True rpm w sortedhd
      by (simp add: Let_def)
  next
    case False
    then show ?thesis
      using wait_if_needed_char [OF one, of t woke'] rpm sortedhd
      by (simp add: Let_def)
  qed
next
  assume h: "length cs = N \<and> sorted (map fst (cs @ [(now, woke)])) \<and> now < fst (hd cs) + 60"
  then obtain rl' where "run_calls (RateLimiter_init (int N)) (cs @ [(now, woke)]) =
       Inr (replicate N None @ [Some (fst (hd cs) + 60 - now)], rl')"
    using run_calls_burst [OF N, of cs now woke] by blast
  then show "\<exists>ss rl'. run_calls (RateLimiter_init (int N)) (cs @ [(now, woke)]) = Inr (ss, rl')
             \<and> take N ss = replicate N None
             \<and> ss ! N = Some (fst (hd cs) + 60 - now)
             \<and> suspensions ss = 1"
    by (simp add: suspensions_def nth_append)
qed

theorem wait_if_needed_sliding_window_witness:
  "wait_if_needed \<lparr>requests_per_minute = 2, request_times = [0, 1]\<rparr> 2 61
     = Inr (Some 58, \<lparr>requests_per_minute = 2, request_times = [61]\<rparr>)
   \<and> run_calls (RateLimiter_init 2) [(0, 0), (1, 1), (2, 61)]
     = Inr ([None, None, Some 58], \<lparr>requests_per_minute = 2, request_times = [61]\<rparr>)"
  using wait_if_needed_sliding_window [of 2 "\<lparr>requests_per_minute = 2, request_times = [0, 1]\<rparr>"
      2 61 "[(0, 0), (1, 1)]" 2 61]
  by (simp add: wait_if_needed_def newer_than_def RateLimiter_init_def)

section \<open>Properties of the teacher's seed generation\<close>

lemma generate_calls:
  "calls (snd (generate p prompt t m))
     = calls p @ [\<lparr>call_prompt = prompt, call_temperature = t, call_max_tokens = m\<rparr>]"
  by (simp add: generate_def Let_def)

lemma seed_loop_calls:
  "calls (teacher_provider (snd (seed_loop request clock is tm exs)))
     = calls (teacher_provider tm) @ map (seed_call request) is"
proof (induction "is" arbitrary: tm exs)
  case Nil
  then show ?case by simp
next
  case (Cons i "is")
  show ?case
    by (simp add: Let_def split_beta Cons.IH seed_call_def generate_calls split: sum.splits)
qed

lemma generate_outcomes: "outcomes (snd (generate p prompt t m)) = outcomes p"
  by (simp add: generate_def Let_def)

lemma generate_fst:
  "fst (generate p prompt t m)
     = outcomes p (length (calls p)) \<lparr>call_prompt = prompt, call_temperature = t, call_max_tokens = m\<rparr>"
  by (simp add: generate_def Let_def)

lemma seed_loop_exact:
  assumes "outcomes (teacher_provider tm) = oc" and "length (calls (teacher_provider tm)) = b"
    and "teacher_model_name tm = name"
  shows "fst (seed_loop request clock is tm exs)
       = exs @ List.map_filter (\<lambda>(k, i). case oc k (seed_call request i) of
                  Inl e \<Rightarrow> None
                | Inr response \<Rightarrow> Some (seed_example request clock name i response))
               (enumerate b is)
     \<and> examples_cache (snd (seed_loop request clock is tm exs))
       = examples_cache tm @ List.map_filter (\<lambda>(k, i). case oc k (seed_call request i) of
                  Inl e \<Rightarrow> None
                | Inr response \<Rightarrow> Some (seed_example request clock name i response))
               (enumerate b is)"
  using assms
proof (induction "is" arbitrary: tm exs b)
  case Nil
  then show ?case by (simp add: List.map_filter_simps)
next
  case (Cons i "is")
  obtain r p' where
    g: "generate (teacher_provider tm) (create_seed_prompt request i) (8 / 10) 1000 = (r, p')"
    by force
  have r: "r = oc b (seed_call request i)"
    using generate_fst [of "teacher_provider tm" "create_seed_prompt request i" "8 / 10" 1000]
      g Cons.prems
    by (simp add: seed_call_def)
  have p': "outcomes p' = oc" "length (calls p') = Suc b"
    using generate_outcomes [of "teacher_provider tm" "create_seed_prompt request i" "8 / 10" 1000]
      generate_calls [of "teacher_provider tm" "create_seed_prompt request i" "8 / 10" 1000]
      g Cons.prems
    by simp_all
  show ?case
  proof (cases r)
    case (Inl e)
    have "oc b (seed_call request i) = Inl e" using r Inl by simp
    then show ?thesis
      using g Inl Cons.IH [of "tm\<lparr>teacher_provider := p'\<rparr>" "Suc b" exs] p' Cons.prems
      by (simp add: Let_def List.map_filter_simps)
  next
    case (Inr response)
    have o: "oc b (seed_call request i) = Inr response" using r Inr by simp
    let ?ex = "seed_example request clock name i response"
    have ex: "\<lparr>ex_input = create_seed_prompt request i,
      ex_output = get_default (resp_content response) [],
      ex_confidence = get_default (resp_confidence response) 0,
      ex_tokens_used = get_default (resp_tokens_used response) 0,
      ex_model = name,
      ex_timestamp = clock i,
      ex_context = \<lparr>ctx_keywords = Some (req_keywords request), ctx_iteration = Some i\<rparr>\<rparr> = ?ex"
      by (simp add: seed_example_def)
    show ?thesis
      using g Inr o p' Cons.prems
        Cons.IH [of "tm\<lparr>teacher_provider := p', examples_cache := examples_cache tm @ [?ex]\<rparr>"
          "Suc b" "exs @ [?ex]"]
      by (simp add: Let_def List.map_filter_simps ex)
  qed
qed

lemma enumerate_upt: "enumerate b [0 ..< n] = map (\<lambda>i. (b + i, i)) [0 ..< n]"
  by (induction n) (simp_all add: enumerate_append_eq)

lemma map_filter_map: "List.map_filter f (map g xs) = List.map_filter (f \<circ> g) xs"
  by (induction xs) (simp_all add: List.map_filter_simps split: option.splits)

lemma length_map_filter: "length (List.map_filter f xs) = length (filter (\<lambda>x. f x \<noteq> None) xs)"
  by (simp add: List.map_filter_def)

lemma generate_seed_data_exact:
  "fst (generate_seed_data tm clock request)
     = List.map_filter (seed_outcome request clock tm) [0 ..< nat (seed_quantity request)]
   \<and> examples_cache (snd (generate_seed_data tm clock request))
     = examples_cache tm @ fst (generate_seed_data tm clock request)"
  using seed_loop_exact [OF refl refl refl, of request clock
      "[0 ..< nat (seed_quantity request)]" tm "[]"]
  by (simp add: generate_seed_data_def enumerate_upt map_filter_map comp_def
      seed_outcome_def [abs_def])

lemma floor_div10: "\<lfloor>real_of_int q / 10\<rfloor> = q div 10"
  by (metis floor_divide_of_int_eq of_int_numeral)

text \<open>
  C4: for a request of positive quantity, \<open>generate_seed_data\<close> makes exactly
  \<open>n = min(floor(quantity / 10), 50)\<close> calls on the teacher's provider, one per iteration
  index in order. The examples it returns are, in that order, the examples built from
  the responses of the calls that returned: a call that raises contributes nothing, a
  call that returns contributes its example, so their number is the number of calls
  that returned, which is at most \<open>n\<close>; the same examples are appended to the teacher's
  cache. Quantities 1, 9, 10, 11, 500 and 10000 give 0, 0, 1, 1, 50 and 50 seeds.
\<close>

theorem generate_seed_data_count:
  assumes "0 < quantity request"
  shows "(let n = nat (min \<lfloor>real_of_int (quantity request) / 10\<rfloor> 50);
             (examples, tm') = generate_seed_data tm clock request
         in calls (teacher_provider tm')
              = calls (teacher_provider tm) @ map (seed_call request) [0 ..< n]
            \<and> length (calls (teacher_provider tm')) = length (calls (teacher_provider tm)) + n
            \<and> examples = List.map_filter (seed_outcome request clock tm) [0 ..< n]
            \<and> length examples
                = length (filter (\<lambda>i. seed_outcome request clock tm i \<noteq> None) [0 ..< n])
            \<and> length examples \<le> n
            \<and> examples_cache tm' = examples_cache tm @ examples)
       \<and> map (\<lambda>q. nat (seed_quantity (request\<lparr>quantity := q\<rparr>))) [1, 9, 10, 11, 500, 10000]
           = [0, 0, 1, 1, 50, 50]"
proof -
  define n where "n = nat (min \<lfloor>real_of_int (quantity request) / 10\<rfloor> 50)"
  have n: "nat (seed_quantity request) = n"
    by (simp add: n_def seed_quantity_def floor_div10)
  obtain examples tm' where g: "generate_seed_data tm clock request = (examples, tm')"
    by force
  have c: "calls (teacher_provider tm')
      = calls (teacher_provider tm) @ map (seed_call request) [0 ..< n]"
    using seed_loop_calls [of request clock "[0 ..< n]" tm "[]"] g
    by (simp add: generate_seed_data_def n)
  have e: "examples = List.map_filter (seed_outcome request clock tm) [0 ..< n]"
    and k: "examples_cache tm' = examples_cache tm @ examples"
    using generate_seed_data_exact [of tm clock request] g by (simp_all add: n)
  have l: "length examples
      = length (filter (\<lambda>i. seed_outcome request clock tm i \<noteq> None) [0 ..< n])"
    unfolding e by (rule length_map_filter)
  have le: "length examples \<le> n"
    unfolding l using length_filter_le [of _ "[0 ..< n]"] by simp
  have t: "map (\<lambda>q. nat (seed_quantity (request\<lparr>quantity := q\<rparr>))) [1, 9, 10, 11, 500, 10000]
           = [0, 0, 1, 1, 50, 50]"
    by (simp add: seed_quantity_def)
  show ?thesis
    unfolding n_def [symmetric] g Let_def using c e l le k t by simp
qed

lemma upt_0_3: "[0 ..< 3 :: nat] = [0, 1, 2]"
  by code_simp

theorem generate_seed_data_count_witness:
  "0 < quantity (example_request 30)
   \<and> length (calls (teacher_provider (snd (generate_seed_data
        (teacher (example_orchestrator flaky_provider scoring_provider))
        (\<lambda>i. example_now) (example_request 30))))) = 3
   \<and> map (\<lambda>ex. ctx_iteration (ex_context ex)) (fst (generate_seed_data
        (teacher (example_orchestrator flaky_provider scoring_provider))
        (\<lambda>i. example_now) (example_request 30))) = [Some 0, Some 2]"
proof -
  let ?tm = "teacher (example_orchestrator flaky_provider scoring_provider)"
  let ?G = "generate_seed_data ?tm (\<lambda>i. example_now) (example_request 30)"
  let ?r = "\<lparr>resp_content = Some ''text'', resp_confidence = Some (9 / 10),
             resp_tokens_used = Some 100\<rparr>"
  have q: "0 < quantity (example_request 30)" by (simp add: example_request_def)
  have n: "nat (min \<lfloor>real_of_int (quantity (example_request 30)) / 10\<rfloor> 50) = 3"
    by (simp add: example_request_def)
  have c0: "calls (teacher_provider ?tm) = []"
    by (simp add: example_orchestrator_def flaky_provider_def)
  have o0: "seed_outcome (example_request 30) (\<lambda>i. example_now) ?tm 0
      = Some (seed_example (example_request 30) (\<lambda>i. example_now) ''teacher'' 0 ?r)"
    and o1: "seed_outcome (example_request 30) (\<lambda>i. example_now) ?tm 1 = None"
    and o2: "seed_outcome (example_request 30) (\<lambda>i. example_now) ?tm 2
      = Some (seed_example (example_request 30) (\<lambda>i. example_now) ''teacher'' 2 ?r)"
    by (simp_all add: seed_outcome_def example_orchestrator_def flaky_provider_def)
  have T: "length (calls (teacher_provider (snd ?G))) = length (calls (teacher_provider ?tm)) + 3
      \<and> fst ?G = List.map_filter (seed_outcome (example_request 30) (\<lambda>i. example_now) ?tm)
          [0 ..< 3]"
    using generate_seed_data_count [OF q, of ?tm "\<lambda>i. example_now"]
    unfolding n Let_def split_beta by blast
  have len: "length (calls (teacher_provider (snd ?G))) = 3"
    using T by (simp add: c0)
  have "fst ?G = [seed_example (example_request 30) (\<lambda>i. example_now) ''teacher'' 0 ?r,
                  seed_example (example_request 30) (\<lambda>i. example_now) ''teacher'' 2 ?r]"
    using T unfolding upt_0_3 List.map_filter_simps o0 o1 o2 by simp
  then show ?thesis using q len by (simp add: seed_example_def)
qed

section \<open>Properties of the validator and of the pipeline\<close>

lemma validate_single_score:
  "0 \<le> v_quality_score (fst (validate_single p item)) \<and> v_quality_score (fst (validate_single p item)) \<le> 1"
  by (simp add: validate_single_def Let_def split_beta split: sum.splits)

lemma validate_single_calls:
  "length (calls (snd (validate_single p item))) = Suc (length (calls p))"
  by (simp add: validate_single_def Let_def split_beta generate_calls)

lemma gather_validate_length:
  "length (fst (gather_validate p items)) = length items"
  by (induction items arbitrary: p) (simp_all add: split_beta Let_def)

lemma gather_validate_calls:
  "length (calls (snd (gather_validate p items))) = length (calls p) + length items"
  by (induction items arbitrary: p) (simp_all add: split_beta Let_def validate_single_calls)

lemma gather_validate_scores:
  "\<forall>v\<in>set (fst (gather_validate p items)). 0 \<le> v_quality_score v \<and> v_quality_score v \<le> 1"
  by (induction items arbitrary: p) (simp_all add: split_beta Let_def validate_single_score)

lemma sum_list_bounds:
  fixes xs :: "real list"
  assumes "\<forall>x\<in>set xs. 0 \<le> x \<and> x \<le> 1"
  shows "0 \<le> sum_list xs \<and> sum_list xs \<le> real (length xs)"
  using assms by (induction xs) auto

lemma mean_bounds:
  fixes xs :: "real list"
  assumes "\<forall>x\<in>set xs. 0 \<le> x \<and> x \<le> 1" and "xs \<noteq> []"
  shows "0 \<le> sum_list xs / real (length xs) \<and> sum_list xs / real (length xs) \<le> 1"
proof -
  have "0 < real (length xs)" using assms(2) by simp
  then show ?thesis using sum_list_bounds [OF assms(1)] by (simp add: divide_le_eq)
qed

lemma sample_size_bounds:
  assumes "items \<noteq> []" and "0 < ratio" and "ratio \<le> 1"
  shows "1 \<le> max 1 (py_int (real (length items) * ratio))"
    and "max 1 (py_int (real (length items) * ratio)) \<le> int (length items)"
    and "max 1 (py_int (real (length items) * ratio)) = max 1 \<lfloor>real (length items) * ratio\<rfloor>"
proof -
  have nn: "0 \<le> real (length items) * ratio" using assms(2) by simp
  then show eq: "max 1 (py_int (real (length items) * ratio)) = max 1 \<lfloor>real (length items) * ratio\<rfloor>"
    by (simp add: py_int_def)
  show "1 \<le> max 1 (py_int (real (length items) * ratio))" by simp
  have "real (length items) * ratio \<le> real (length items)"
    using assms(3) by (simp add: mult_left_le)
  then have "\<lfloor>real (length items) * ratio\<rfloor> \<le> int (length items)"
    by (metis floor_mono floor_of_nat)
  moreover have "1 \<le> int (length items)" using assms(1) by (cases items) auto
  ultimately show "max 1 (py_int (real (length items) * ratio)) \<le> int (length items)"
    using eq by simp
qed

lemma take_range_step:
  assumes "n * step \<le> len" and "0 < step"
  shows "take n (range_step len step) = map (\<lambda>k. k * step) [0 ..< n]"
proof -
  have "n \<le> len div step" using assms by (simp add: less_eq_div_iff_mult_less_eq)
  also have "\<dots> \<le> (len + step - 1) div step" by (rule div_le_mono) (use assms(2) in simp)
  finally have "n \<le> (len + step - 1) div step" .
  then show ?thesis by (simp add: range_step_def take_map min_def)
qed

lemma sample_step_bounds:
  assumes ne: "items \<noteq> []" and r0: "0 < ratio" and r1: "ratio \<le> 1"
  shows "1 \<le> nat (max 1 \<lfloor>real (length items) * ratio\<rfloor>)"
    and "nat (max 1 \<lfloor>real (length items) * ratio\<rfloor>) \<le> length items"
    and "1 \<le> length items div nat (max 1 \<lfloor>real (length items) * ratio\<rfloor>)"
    and "nat (max 1 \<lfloor>real (length items) * ratio\<rfloor>)
           * (length items div nat (max 1 \<lfloor>real (length items) * ratio\<rfloor>)) \<le> length items"
proof -
  let ?n = "nat (max 1 \<lfloor>real (length items) * ratio\<rfloor>)"
  have "max 1 \<lfloor>real (length items) * ratio\<rfloor> \<le> int (length items)"
    using sample_size_bounds [OF ne r0 r1] by simp
  then show nle: "?n \<le> length items" by linarith
  show n1: "1 \<le> ?n" by linarith
  show "1 \<le> length items div ?n"
    using n1 nle by (simp add: Suc_le_eq div_greater_zero_iff)
  show "?n * (length items div ?n) \<le> length items" by simp
qed

lemma validate_batch_nonempty:
  assumes ne: "items \<noteq> []" and r0: "0 < ratio" and r1: "ratio \<le> 1"
    and n: "n = nat (max 1 \<lfloor>real (length items) * ratio\<rfloor>)"
    and step: "step = length items div n"
    and run: "run = gather_validate p (map (\<lambda>k. items ! (k * step)) [0 ..< n])"
  shows "validate_batch p items ratio =
      (Inr \<lparr>average_quality = sum_list (map v_quality_score (fst run)) / real n,
            sample_size = n, validations = fst run,
            meets_threshold = (sum_list (map v_quality_score (fst run)) / real n \<ge> 8 / 10)\<rparr>,
       snd run)"
proof -
  let ?s = "max 1 (py_int (real (length items) * ratio))"
  have s3: "?s = max 1 \<lfloor>real (length items) * ratio\<rfloor>"
    using sample_size_bounds [OF ne r0 r1] by simp
  have n1: "1 \<le> n" and st1: "1 \<le> step" and ns: "n * step \<le> length items"
    using sample_step_bounds [OF ne r0 r1] unfolding n step by simp_all
  have ni: "int n = ?s" using n1 s3 n by simp
  have step_int: "int (length items) div ?s = int step"
    by (simp add: step zdiv_int flip: ni)
  have tk: "take n (range_step (length items) step) = map (\<lambda>k. k * step) [0 ..< n]"
    using take_range_step [OF ns] st1 by simp
  have len: "length (fst run) = n" by (simp add: run gather_validate_length)
  have nz: "int step \<noteq> 0" using st1 by simp
  have ne': "fst run \<noteq> []" using len n1 by auto
  have nats: "nat ?s = n" using ni by simp
  show ?thesis
    unfolding validate_batch_def Let_def step_int nats
    using nz ne' len tk by (simp add: split_beta run comp_def)
qed

lemma validate_batch_empty: "validate_batch p [] ratio = (Inl ValueError, p)"
  by (simp add: validate_batch_def Let_def)

lemma generate_dataset_fst:
  "fst (generate_dataset orch env request) =
     (case fst (validate_batch
                  (teacher_provider (snd (generate_seed_data (teacher orch) (env_clock env) request)))
                  (student_output orch env request) (1 / 10)) of
        Inl e \<Rightarrow> Inl e
      | Inr vr \<Rightarrow>
          Inr \<lparr>response_id = env_uuid env,
               data = map (\<lambda>ex. \<lparr>content = ex_output ex, source = ''teacher'',
                                  quality = ex_confidence ex\<rparr>) (seed_examples orch env request)
                    @ map (\<lambda>item. \<lparr>content = item_content item, source = ''student'',
                                    quality = item_quality_estimate item\<rparr>)
                        (student_output orch env request),
               quality_score = average_quality vr,
               cost = calculate_total_cost (seed_examples orch env request)
                        (student_output orch env request),
               model_used = teacher_model_name
                     (snd (generate_seed_data (teacher orch) (env_clock env) request))
                   @ '' + '' @ student_model_name (snd (generate_bulk_data
                       (snd (learn_from_teacher (student orch) (seed_examples orch env request)))
                       request)),
               generation_time = env_elapsed env,
               metadata =
                 \<lparr>md_teacher_examples = length (seed_examples orch env request),
                  md_student_generated = length (student_output orch env request),
                  md_learning_confidence = learning_confidence
                    (fst (learn_from_teacher (student orch) (seed_examples orch env request))),
                  md_validation_sample_size = sample_size vr,
                  md_meets_quality_threshold = meets_threshold vr\<rparr>\<rparr>)"
proof -
  obtain exs tm1 where a: "generate_seed_data (teacher orch) (env_clock env) request = (exs, tm1)"
    by force
  obtain learning sm1 where b: "learn_from_teacher (student orch) exs = (learning, sm1)"
    by force
  obtain sd sm2 where c: "generate_bulk_data sm1 request = (sd, sm2)"
    by force
  obtain vr p' where d: "validate_batch (teacher_provider tm1) sd (1 / 10) = (vr, p')"
    by force
  show ?thesis
    by (simp add: generate_dataset_def seed_examples_def student_output_def a b c d Let_def
        split: sum.splits)
qed

lemma calculate_total_cost_nonneg:
  assumes "\<forall>ex\<in>set exs. 0 \<le> ex_tokens_used ex"
  shows "0 \<le> calculate_total_cost exs items"
proof -
  have "0 \<le> sum_list (map (\<lambda>ex. real_of_int (ex_tokens_used ex) * (1 / 100)) exs)"
    using assms by (intro sum_list_nonneg) auto
  then show ?thesis by (simp add: calculate_total_cost_def Let_def)
qed

text \<open>
  C5 fixes the number of samples as \<open>max(1, floor(len(items) * ratio))\<close>, the average as
  the mean of the scores and the flag as the comparison of that mean with 0.8. In the
  code each of the three is the value of a computation in binary floating point
  (\<open>int(len(data) * sample_ratio)\<close>, \<open>sum(...) / len(validations)\<close>, \<open>avg_quality >= 0.8\<close>),
  and the exact reals of this embedding do not give those values: for 100 items and the
  ratio 0.57 the code takes 56 samples where the floor of the exact product is 57, and
  for the scores 0.7, 0.8 and 0.9 its flag is false where the exact mean is 0.8. No
  theorem is stated for C5; \<open>validate_batch_nonempty\<close> above is what holds of the model.
\<close>

lemmas pipeline_eval =
  student_output_def seed_examples_def generate_seed_data_def seed_quantity_def
  example_request_def example_orchestrator_def scoring_provider_def failing_provider_def
  example_env_def learn_from_teacher_def generate_bulk_data_def Let_def generate_def
  get_default_def estimate_quality_def

lemma upt_0_5: "[0 ..< 5 :: nat] = [0, 1, 2, 3, 4]"
  by code_simp

lemma upt_0_10: "[0 ..< 10 :: nat] = [0, 1, 2, 3, 4, 5, 6, 7, 8, 9]"
  by code_simp

text \<open>
  C6: when the student has produced at least one item and no teacher example has a
  negative \<open>tokens_used\<close>, \<open>generate_dataset\<close> returns a response, its quality score lies
  between 0 and 1, and its cost is not negative.
\<close>

theorem generate_dataset_score_and_cost_bounds:
  assumes "student_output orch env request \<noteq> []"
    and "\<forall>ex\<in>set (seed_examples orch env request). 0 \<le> ex_tokens_used ex"
  shows "\<exists>resp. fst (generate_dataset orch env request) = Inr resp
           \<and> 0 \<le> quality_score resp \<and> quality_score resp \<le> 1 \<and> 0 \<le> cost resp"
proof -
  let ?p = "teacher_provider (snd (generate_seed_data (teacher orch) (env_clock env) request))"
  let ?items = "student_output orch env request"
  define n where "n = nat (max 1 \<lfloor>real (length ?items) * (1 / 10)\<rfloor>)"
  define step where "step = length ?items div n"
  define run where "run = gather_validate ?p (map (\<lambda>k. ?items ! (k * step)) [0 ..< n])"
  have vb: "validate_batch ?p ?items (1 / 10) =
      (Inr \<lparr>average_quality = sum_list (map v_quality_score (fst run)) / real n,
            sample_size = n, validations = fst run,
            meets_threshold = (sum_list (map v_quality_score (fst run)) / real n \<ge> 8 / 10)\<rparr>,
       snd run)" and n1: "1 \<le> n"
    using validate_batch_nonempty [OF assms(1) _ _ n_def step_def run_def]
      sample_step_bounds(1) [OF assms(1), of "1 / 10"]
    unfolding n_def by simp_all
  have len: "length (fst run) = n" by (simp add: run_def gather_validate_length)
  have sc: "\<forall>x\<in>set (map v_quality_score (fst run)). 0 \<le> x \<and> x \<le> 1"
    using gather_validate_scores [of ?p] by (simp add: run_def)
  have "map v_quality_score (fst run) \<noteq> []" using len n1 by auto
  from mean_bounds [OF sc this]
  have q: "0 \<le> sum_list (map v_quality_score (fst run)) / real n
      \<and> sum_list (map v_quality_score (fst run)) / real n \<le> 1"
    using len by simp
  have c: "0 \<le> calculate_total_cost (seed_examples orch env request) ?items"
    using assms(2) by (rule calculate_total_cost_nonneg)
  show ?thesis
    unfolding generate_dataset_fst using vb q c by simp
qed

theorem generate_dataset_score_and_cost_bounds_witness:
  "student_output (example_orchestrator scoring_provider scoring_provider) example_env
      (example_request 10) \<noteq> []
   \<and> length (seed_examples (example_orchestrator scoring_provider scoring_provider) example_env
        (example_request 10)) = 1
   \<and> list_all (\<lambda>ex. 0 \<le> ex_tokens_used ex)
        (seed_examples (example_orchestrator scoring_provider scoring_provider) example_env
           (example_request 10))
   \<and> (\<exists>resp. fst (generate_dataset (example_orchestrator scoring_provider scoring_provider)
                   example_env (example_request 10)) = Inr resp
           \<and> 0 \<le> quality_score resp \<and> quality_score resp \<le> 1 \<and> 0 \<le> cost resp)"
proof -
  let ?o = "example_orchestrator scoring_provider scoring_provider"
  have a: "student_output ?o example_env (example_request 10) \<noteq> []"
    by (simp add: pipeline_eval upt_0_10)
  have l: "length (seed_examples ?o example_env (example_request 10)) = 1"
    by (simp add: pipeline_eval)
  have b: "list_all (\<lambda>ex. 0 \<le> ex_tokens_used ex) (seed_examples ?o example_env (example_request 10))"
    by (simp add: pipeline_eval)
  then have b': "\<forall>ex\<in>set (seed_examples ?o example_env (example_request 10)).
      0 \<le> ex_tokens_used ex"
    by (simp add: list_all_iff)
  from generate_dataset_score_and_cost_bounds [OF a b'] a l b show ?thesis by simp
qed

text \<open>
  C2 does not hold of the code: when the student produces no item, \<open>validate_batch\<close> is
  called on the empty list, computes the sample size \<open>max(1, int(0 * 0.1)) = 1\<close> and the
  step \<open>0 // 1 = 0\<close>, and \<open>range(0, 0, 0)\<close> raises \<open>ValueError\<close>; nothing catches it, so
  \<open>generate_dataset\<close> raises instead of returning a response with a default score.
\<close>

theorem generate_dataset_empty_student_output_raises:
  assumes "student_output orch env request = []"
  shows "fst (generate_dataset orch env request) = Inl ValueError"
  unfolding generate_dataset_fst by (simp add: assms validate_batch_empty)

theorem generate_dataset_empty_student_output_raises_witness:
  "seed_examples (example_orchestrator scoring_provider failing_provider) example_env
      (example_request 5) = []
   \<and> student_output (example_orchestrator scoring_provider failing_provider) example_env
        (example_request 5) = []
   \<and> fst (generate_dataset (example_orchestrator scoring_provider failing_provider) example_env
        (example_request 5)) = Inl ValueError"
proof -
  let ?o = "example_orchestrator scoring_provider failing_provider"
  have s: "seed_examples ?o example_env (example_request 5) = []"
    by (simp add: pipeline_eval)
  have e: "student_output ?o example_env (example_request 5) = []"
    by (simp add: pipeline_eval upt_0_5)
  from generate_dataset_empty_student_output_raises [OF e] s e show ?thesis by simp
qed

section \<open>Properties of the pattern extractor\<close>

lemma group_by_snoc: "group_by key (xs @ [x]) = group_append (group_by key xs) (key x) x"
  by (simp add: group_by_def)

lemma group_append_keys: "fst ` set (group_append g k x) = insert k (fst ` set g)"
  by (induction g k x rule: group_append.induct) auto

lemma group_append_distinct: "distinct (map fst g) \<Longrightarrow> distinct (map fst (group_append g k x))"
proof (induction g k x rule: group_append.induct)
  case (1 k x)
  then show ?case by simp
next
  case (2 k' xs g k x)
  then show ?case
    using group_append_keys [of g k x] by (auto simp: image_iff)
qed

lemma group_append_mem:
  assumes "(k', ys) \<in> set (group_append g k x)" and "distinct (map fst g)"
  shows "(k' \<noteq> k \<and> (k', ys) \<in> set g)
       \<or> (k' = k \<and> (\<exists>zs. (k, zs) \<in> set g \<and> ys = zs @ [x]))
       \<or> (k' = k \<and> k \<notin> fst ` set g \<and> ys = [x])"
  using assms
proof (induction g k x rule: group_append.induct)
  case (1 k x)
  then show ?case by simp
next
  case (2 k0 xs g k x)
  show ?case
  proof (cases "k0 = k")
    case True
    then have "(k', ys) = (k, xs @ [x]) \<or> (k', ys) \<in> set g" using 2 by simp
    moreover have "k \<notin> fst ` set g" using 2 True by (auto simp: image_iff)
    ultimately show ?thesis using True by (force simp: image_iff)
  next
    case False
    then have "(k', ys) = (k0, xs) \<or> (k', ys) \<in> set (group_append g k x)" using 2 by simp
    then show ?thesis
    proof
      assume "(k', ys) = (k0, xs)"
      then show ?thesis using False by auto
    next
      assume m: "(k', ys) \<in> set (group_append g k x)"
      have "distinct (map fst g)" using 2 by simp
      from "2.IH" [OF False m this] show ?thesis using False by auto
    qed
  qed
qed

lemma group_by_groups:
  "distinct (map fst (group_by key xs))
   \<and> (\<forall>(k, ys)\<in>set (group_by key xs). ys = filter (\<lambda>x. key x = k) xs \<and> ys \<noteq> [])"
proof (induction xs rule: rev_induct)
  case Nil
  then show ?case by (simp add: group_by_def)
next
  case (snoc x xs)
  let ?g = "group_by key xs"
  have d: "distinct (map fst ?g)" using snoc by simp
  have inv: "\<And>k ys. (k, ys) \<in> set ?g \<Longrightarrow> ys = filter (\<lambda>x. key x = k) xs \<and> ys \<noteq> []"
    using snoc by auto
  have uniq: "\<And>k ys zs. (k, ys) \<in> set ?g \<Longrightarrow> (k, zs) \<in> set ?g \<Longrightarrow> ys = zs"
    using d by (meson eq_key_imp_eq_value)
  have nokey: "\<And>k. k \<notin> fst ` set ?g \<Longrightarrow> filter (\<lambda>x. key x = k) xs = []"
  proof (rule ccontr)
    fix k assume nk: "k \<notin> fst ` set ?g" and ne: "filter (\<lambda>x. key x = k) xs \<noteq> []"
    then obtain y where "y \<in> set xs" "key y = k"
      by (metis (mono_tags, lifting) filter_False)
    then have "k \<in> fst ` set (group_by key xs)"
    proof (induction xs rule: rev_induct)
      case Nil
      then show ?case by simp
    next
      case (snoc z zs)
      then show ?case
        by (auto simp: group_by_snoc group_append_keys)
    qed
    then show False using nk by simp
  qed
  show ?case
  proof (intro conjI)
    show "distinct (map fst (group_by key (xs @ [x])))"
      using d by (simp add: group_by_snoc group_append_distinct)
    show "\<forall>(k, ys)\<in>set (group_by key (xs @ [x])). ys = filter (\<lambda>x. key x = k) (xs @ [x]) \<and> ys \<noteq> []"
    proof (clarify)
      fix k ys assume "(k, ys) \<in> set (group_by key (xs @ [x]))"
      then have m: "(k, ys) \<in> set (group_append ?g (key x) x)" by (simp add: group_by_snoc)
      from group_append_mem [OF m d]
      show "ys = filter (\<lambda>x. key x = k) (xs @ [x]) \<and> ys \<noteq> []"
        using inv uniq nokey by (elim disjE conjE exE) auto
    qed
  qed
qed

lemma group_by_mem:
  assumes "(k, ys) \<in> set (group_by key xs)"
  shows "ys = filter (\<lambda>x. key x = k) xs"
  using group_by_groups [of key xs] assms by auto


lemma structural_patterns:
  assumes "p \<in> set (extract_structural_patterns env exs)"
  shows "pattern_type p = ''structure'' \<and> 2 \<le> frequency p
       \<and> confidence p = min 1 (real (frequency p) / 10)
       \<and> (\<exists>k. frequency p
              = length (filter (\<lambda>ex. get_structure_signature (ex_output ex) = k) exs))"
proof -
  from assms obtain k g where
    m: "(k, g) \<in> set (group_by (\<lambda>ex. get_structure_signature (ex_output ex)) exs)"
    and l: "2 \<le> length g"
    and p: "frequency p = length g" "confidence p = min 1 (real (length g) / 10)"
       "pattern_type p = ''structure''"
    by (auto simp: extract_structural_patterns_def Let_def)
  from group_by_mem [OF m] p l show ?thesis by auto
qed

lemma content_patterns:
  assumes "p \<in> set (extract_content_patterns env exs)"
  shows "pattern_type p = ''content'' \<and> 2 \<le> frequency p
       \<and> confidence p = min 1 (real (frequency p) / 8)
       \<and> (\<exists>k. frequency p
              = length (filter (\<lambda>ex. context_keywords ex \<noteq> [] \<and> topic_key ex = k) exs))"
proof -
  from assms obtain k g where
    m: "(k, g) \<in> set (group_by topic_key (filter (\<lambda>ex. context_keywords ex \<noteq> []) exs))"
    and l: "2 \<le> length g"
    and p: "frequency p = length g" "confidence p = min 1 (real (length g) / 8)"
       "pattern_type p = ''content''"
    by (auto simp: extract_content_patterns_def Let_def)
  have "g = filter (\<lambda>ex. context_keywords ex \<noteq> [] \<and> topic_key ex = k) exs"
    using group_by_mem [OF m] by (simp add: conj_commute)
  then show ?thesis using p l by auto
qed

lemma style_patterns:
  assumes "p \<in> set (extract_style_patterns env exs)"
  shows "pattern_type p = ''style'' \<and> 3 \<le> frequency p
       \<and> confidence p = min 1 (real (frequency p) / 15)
       \<and> (\<exists>k. frequency p
              = length (filter (\<lambda>ex. classify_style (example_style_features env ex) = k) exs))"
proof -
  from assms obtain k g where
    m: "(k, g) \<in> set (group_by (\<lambda>(ex, features). classify_style features)
              (map (\<lambda>ex. (ex, example_style_features env ex)) exs))"
    and l: "3 \<le> length g"
    and p: "frequency p = length g" "confidence p = min 1 (real (length g) / 15)"
       "pattern_type p = ''style''"
    by (auto simp: extract_style_patterns_def Let_def)
  have "g = filter (\<lambda>(ex, features). classify_style features = k)
              (map (\<lambda>ex. (ex, example_style_features env ex)) exs)"
    using group_by_mem [OF m] by (simp add: case_prod_unfold)
  then have "length g = length (filter (\<lambda>ex. classify_style (example_style_features env ex) = k) exs)"
    by (simp add: filter_map comp_def)
  then show ?thesis using p l by auto
qed

lemma format_patterns:
  assumes "p \<in> set (extract_format_patterns env exs)"
  shows "pattern_type p = ''format'' \<and> 2 \<le> frequency p \<and> confidence p = 9 / 10"
  using assms by (auto simp: extract_format_patterns_def Let_def)

lemma min_div_mono:
  fixes n m :: nat and K :: real
  assumes "n \<le> m" and "0 < K"
  shows "min 1 (real n / K) \<le> min 1 (real m / K)"
proof -
  have "real n / K \<le> real m / K" using assms by (simp add: divide_right_mono)
  then show ?thesis by (simp add: min_def)
qed

text \<open>
  C9: every pattern \<open>extract_patterns\<close> returns comes from one of the four passes. A
  structural, style or content pattern has as frequency the size \<open>n\<close> of a group of
  examples with one key (at least 2, for style at least 3) and the confidence
  \<open>min(1.0, n / K)\<close> with \<open>K\<close> = 10, 15 and 8; a format pattern has confidence \<open>0.9\<close>.
  So no confidence exceeds 1, and of two patterns of one type the one with the larger
  group has at least the confidence of the other. Groups of 2, 10 and 20 examples of one
  structure give the confidences 0.2, 1.0 and 1.0.
\<close>

theorem pattern_confidence_by_group_size:
  "(\<forall>p\<in>set (fst (extract_patterns env stored exs)).
      (pattern_type p = ''structure'' \<and> 2 \<le> frequency p
         \<and> confidence p = min 1 (real (frequency p) / 10)
         \<and> (\<exists>k. frequency p
               = length (filter (\<lambda>ex. get_structure_signature (ex_output ex) = k) exs)))
      \<or> (pattern_type p = ''style'' \<and> 3 \<le> frequency p
         \<and> confidence p = min 1 (real (frequency p) / 15)
         \<and> (\<exists>k. frequency p
               = length (filter (\<lambda>ex. classify_style (example_style_features env ex) = k) exs)))
      \<or> (pattern_type p = ''content'' \<and> 2 \<le> frequency p
         \<and> confidence p = min 1 (real (frequency p) / 8)
         \<and> (\<exists>k. frequency p
               = length (filter (\<lambda>ex. context_keywords ex \<noteq> [] \<and> topic_key ex = k) exs)))
      \<or> (pattern_type p = ''format'' \<and> 2 \<le> frequency p \<and> confidence p = 9 / 10))
   \<and> (\<forall>p\<in>set (fst (extract_patterns env stored exs)).
       \<forall>q\<in>set (fst (extract_patterns env' stored' exs')).
         confidence p \<le> 1
         \<and> (pattern_type p = pattern_type q \<and> frequency p \<le> frequency q
              \<longrightarrow> confidence p \<le> confidence q))
   \<and> map (\<lambda>n. map confidence
              (extract_structural_patterns example_extractor_env (replicate n example_teacher_example)))
        [2, 10, 20]
      = [[2 / 10], [1], [1]]"
proof -
  have kinds: "\<And>r e s xs. r \<in> set (fst (extract_patterns e s xs)) \<Longrightarrow>
      (pattern_type r = ''structure'' \<and> 2 \<le> frequency r
         \<and> confidence r = min 1 (real (frequency r) / 10)
         \<and> (\<exists>k. frequency r
               = length (filter (\<lambda>ex. get_structure_signature (ex_output ex) = k) xs)))
      \<or> (pattern_type r = ''style'' \<and> 3 \<le> frequency r
         \<and> confidence r = min 1 (real (frequency r) / 15)
         \<and> (\<exists>k. frequency r
               = length (filter (\<lambda>ex. classify_style (example_style_features e ex) = k) xs)))
      \<or> (pattern_type r = ''content'' \<and> 2 \<le> frequency r
         \<and> confidence r = min 1 (real (frequency r) / 8)
         \<and> (\<exists>k. frequency r
               = length (filter (\<lambda>ex. context_keywords ex \<noteq> [] \<and> topic_key ex = k) xs)))
      \<or> (pattern_type r = ''format'' \<and> 2 \<le> frequency r \<and> confidence r = 9 / 10)"
  proof -
    fix r e s xs assume "r \<in> set (fst (extract_patterns e s xs))"
    then consider "r \<in> set (extract_structural_patterns e xs)"
      | "r \<in> set (extract_style_patterns e xs)"
      | "r \<in> set (extract_content_patterns e xs)"
      | "r \<in> set (extract_format_patterns e xs)"
      by (auto simp: extract_patterns_def Let_def)
    then show "(pattern_type r = ''structure'' \<and> 2 \<le> frequency r
         \<and> confidence r = min 1 (real (frequency r) / 10)
         \<and> (\<exists>k. frequency r
               = length (filter (\<lambda>ex. get_structure_signature (ex_output ex) = k) xs)))
      \<or> (pattern_type r = ''style'' \<and> 3 \<le> frequency r
         \<and> confidence r = min 1 (real (frequency r) / 15)
         \<and> (\<exists>k. frequency r
               = length (filter (\<lambda>ex. classify_style (example_style_features e ex) = k) xs)))
      \<or> (pattern_type r = ''content'' \<and> 2 \<le> frequency r
         \<and> confidence r = min 1 (real (frequency r) / 8)
         \<and> (\<exists>k. frequency r
               = length (filter (\<lambda>ex. context_keywords ex \<noteq> [] \<and> topic_key ex = k) xs)))
      \<or> (pattern_type r = ''format'' \<and> 2 \<le> frequency r \<and> confidence r = 9 / 10)"
      using structural_patterns [of r e xs] style_patterns [of r e xs]
        content_patterns [of r e xs] format_patterns [of r e xs]
      by cases blast+
  qed
  have mono: "confidence p \<le> 1
         \<and> (pattern_type p = pattern_type q \<and> frequency p \<le> frequency q
              \<longrightarrow> confidence p \<le> confidence q)"
    if p: "p \<in> set (fst (extract_patterns env stored exs))"
      and q: "q \<in> set (fst (extract_patterns env' stored' exs'))" for p q
  proof (intro conjI impI)
    show "confidence p \<le> 1" using kinds [OF p] by auto
    assume h: "pattern_type p = pattern_type q \<and> frequency p \<le> frequency q"
    then have le: "frequency p \<le> frequency q" and ty: "pattern_type p = pattern_type q" by auto
    from kinds [OF p] kinds [OF q] ty
    show "confidence p \<le> confidence q"
      using min_div_mono [OF le, of 10] min_div_mono [OF le, of 15] min_div_mono [OF le, of 8]
      by (elim disjE conjE) simp_all
  qed
  have table: "map (\<lambda>n. map confidence
              (extract_structural_patterns example_extractor_env (replicate n example_teacher_example)))
        [2, 10, 20]
      = [[2 / 10], [1], [1]]"
    by code_simp
  show ?thesis
    using kinds [of _ env stored exs] mono table by (intro conjI ballI) blast+
qed

theorem pattern_confidence_by_group_size_witness:
  "map (\<lambda>p. (pattern_type p, frequency p, confidence p))
     (fst (extract_patterns example_extractor_env [] (replicate 2 example_teacher_example)))
   = [(''structure'', 2, 2 / 10), (''content'', 2, 2 / 8)]"
proof -
  have ev: "map (\<lambda>p. (pattern_type p, frequency p, confidence p))
     (fst (extract_patterns example_extractor_env [] (replicate 2 example_teacher_example)))
   = [(''structure'', 2, 2 / 10), (''content'', 2, 2 / 8)]"
    by code_simp
  from pattern_confidence_by_group_size [of example_extractor_env "[]"
      "replicate 2 example_teacher_example" example_extractor_env "[]"
      "replicate 2 example_teacher_example"] ev
  show ?thesis by simp
qed

section \<open>Properties of the allocation optimizer\<close>

lemma evaluate_ratio_accepts:
  assumes "evaluate_ratio profiles request budget r = Inr (Some (a, s))"
  shows "alloc_total_cost a \<le> total_budget budget
       \<and> get_default (rq_quality_threshold request) (8 / 10) \<le> alloc_expected_quality a
       \<and> alloc_teacher_ratio a = r
       \<and> alloc_total_cost a = alloc_teacher_cost a + alloc_student_cost a"
  using assms
  by (auto simp: evaluate_ratio_def Let_def split: sum.splits if_splits)

lemma allocation_loop_accepts:
  assumes "allocation_loop profiles request budget rs best score = Inr (Some a)"
    and "\<And>b. best = Some b \<Longrightarrow> P b"
    and "\<And>r b s. r \<in> set rs
           \<Longrightarrow> evaluate_ratio profiles request budget r = Inr (Some (b, s)) \<Longrightarrow> P b"
  shows "P a"
  using assms
proof (induction rs arbitrary: best score)
  case Nil
  then show ?case by simp
next
  case (Cons r rs)
  show ?case
  proof (cases "evaluate_ratio profiles request budget r")
    case (Inl e)
    then show ?thesis using Cons.prems(1) by simp
  next
    case (Inr v)
    show ?thesis
    proof (cases v)
      case None
      then have "allocation_loop profiles request budget rs best score = Inr (Some a)"
        using Cons.prems(1) Inr by simp
      then show ?thesis using Cons.IH Cons.prems(2,3) by (metis list.set_intros(2))
    next
      case (Some bs)
      obtain b s where bs: "bs = (b, s)" by (cases bs)
      have Pb: "P b" using Cons.prems(3) [of r b s] Inr Some bs by simp
      show ?thesis
      proof (cases "np_greater s score")
        case True
        then have "allocation_loop profiles request budget rs (Some b) s = Inr (Some a)"
          using Cons.prems(1) Inr Some bs by simp
        then show ?thesis using Cons.IH [of "Some b" s] Pb Cons.prems(3)
          by (metis list.set_intros(2) option.inject)
      next
        case False
        then have "allocation_loop profiles request budget rs best score = Inr (Some a)"
          using Cons.prems(1) Inr Some bs by simp
        then show ?thesis using Cons.IH Cons.prems(2,3) by (metis list.set_intros(2))
      qed
    qed
  qed
qed

lemma allocation_loop_all_rejected:
  assumes "\<forall>r\<in>set rs. evaluate_ratio profiles request budget r = Inr None"
  shows "allocation_loop profiles request budget rs best score = Inr best"
  using assms by (induction rs) simp_all

lemma optimize_allocation_sound:
  assumes "optimize_teacher_student_allocation profiles request budget = Inr (Allocation a)"
  shows "alloc_total_cost a \<le> total_budget budget
       \<and> get_default (rq_quality_threshold request) (8 / 10) \<le> alloc_expected_quality a
       \<and> alloc_teacher_ratio a \<in> set teacher_ratios"
proof -
  have l: "allocation_loop profiles request budget teacher_ratios None (Finite (- 1))
      = Inr (Some a)"
    using assms
    by (auto simp: optimize_teacher_student_allocation_def split: sum.splits option.splits)
  show ?thesis
  proof (rule allocation_loop_accepts [OF l])
    fix b :: allocation assume "None = Some b"
    then show "alloc_total_cost b \<le> total_budget budget
       \<and> get_default (rq_quality_threshold request) (8 / 10) \<le> alloc_expected_quality b
       \<and> alloc_teacher_ratio b \<in> set teacher_ratios"
      by simp
  next
    fix r b s
    assume "r \<in> set teacher_ratios"
      and "evaluate_ratio profiles request budget r = Inr (Some (b, s))"
    then show "alloc_total_cost b \<le> total_budget budget
       \<and> get_default (rq_quality_threshold request) (8 / 10) \<le> alloc_expected_quality b
       \<and> alloc_teacher_ratio b \<in> set teacher_ratios"
      using evaluate_ratio_accepts [of profiles request budget r b s] by simp
  qed
qed

lemma optimize_allocation_none_viable:
  assumes "\<forall>r\<in>set teacher_ratios. evaluate_ratio profiles request budget r = Inr None"
  shows "optimize_teacher_student_allocation profiles request budget = Inr NoViableAllocation"
  using allocation_loop_all_rejected [OF assms]
  by (simp add: optimize_teacher_student_allocation_def)

lemma teacher_ratios_eq:
  "teacher_ratios = [1 / 20, 1 / 10, 3 / 20, 1 / 5, 1 / 4, 3 / 10, 7 / 20, 2 / 5, 9 / 20]"
  by code_simp

text \<open>
  C3 does not hold of the code: the scan stops at 45%. \<open>np.arange(0.05, 0.5, 0.05)\<close>
  leaves its end point out, against the comment beside it (\<open>5% to 50% teacher\<close>). With a
  teacher of quality 1.0, a student of quality 0.6 and the threshold 0.8, a teacher
  share of 50% passes the budget check and the quality check of the loop body, no
  smaller share does, and the function answers that there is no viable allocation.
\<close>

theorem optimize_allocation_misses_half:
  "(case evaluate_ratio (example_profiles weak_student_profile) example_cost_request
           example_budget (1 / 2) of
      Inr (Some (a, s)) \<Rightarrow>
        alloc_total_cost a \<le> total_budget example_budget
        \<and> get_default (rq_quality_threshold example_cost_request) (8 / 10)
            \<le> alloc_expected_quality a
    | _ \<Rightarrow> False)
   \<and> 1 / 2 \<notin> set teacher_ratios
   \<and> optimize_teacher_student_allocation (example_profiles weak_student_profile)
        example_cost_request example_budget
       = Inr NoViableAllocation"
  by code_simp

end
